theory Spec2Isabelle
  imports Main "HOL-Library.AList" "HOL-Library.Sublist"
begin

section \<open>Credit ledger (messageCache: messageTickets, messageTicketsChatwoot)\<close>

text \<open>
  The module keeps two JavaScript \<^verbatim>\<open>Map\<close>s from a recipient to an object
  \<^verbatim>\<open>{ messageType: ticketCount }\<close>. Both levels are modelled as association
  lists: \<open>AList.update\<close> overwrites the value of a key that is present and appends a new
  key at the end, as \<^verbatim>\<open>Map.set\<close> and a property assignment do; \<open>AList.delete\<close>
  is \<^verbatim>\<open>Map.delete\<close>. The counters are JavaScript numbers that only ever receive
  \<open>+ 1\<close> and \<open>- 1\<close>; they are modelled as \<open>int\<close>, so that a negative counter is a value
  the model could reach if the code produced one. The recipient key is left polymorphic:
  the processors pass a string or \<^verbatim>\<open>null\<close>. The kinds the callers pass are the five
  \<^verbatim>\<open>MESSAGE_TYPES\<close> strings; for them a property read is the lookup in the object's
  own entries.
\<close>

type_synonym phoneTickets = "(string \<times> int) list"

type_synonym 'p tickets = "('p \<times> phoneTickets) list"

text \<open>\<^verbatim>\<open>phoneTickets[messageType] || 0\<close>: an absent counter and a zero counter both read 0.\<close>

definition currentTickets :: "phoneTickets \<Rightarrow> string \<Rightarrow> int" where
  "currentTickets pt messageType =
     (case map_of pt messageType of None \<Rightarrow> 0 | Some c \<Rightarrow> c)"

text \<open>\<^verbatim>\<open>Object.values(phoneTickets).some(count => count > 0)\<close>\<close>

definition hasAnyTickets :: "phoneTickets \<Rightarrow> bool" where
  "hasAnyTickets pt = list_ex (\<lambda>kc. 0 < snd kc) pt"

definition addOutgoingTicket :: "'p tickets \<Rightarrow> 'p \<Rightarrow> string \<Rightarrow> 'p tickets" where
  "addOutgoingTicket messageTickets phone messageType =
     (let m1 = (if map_of messageTickets phone = None
                then AList.update phone [] messageTickets else messageTickets);
          pt = (case map_of m1 phone of None \<Rightarrow> [] | Some o1 \<Rightarrow> o1)
      in AList.update phone
           (AList.update messageType (currentTickets pt messageType + 1) pt) m1)"

text \<open>The result pairs the returned boolean with the map after the call.\<close>

definition consumeOutgoingTicket :: "'p tickets \<Rightarrow> 'p \<Rightarrow> string \<Rightarrow> bool \<times> 'p tickets" where
  "consumeOutgoingTicket messageTickets phone messageType =
     (case map_of messageTickets phone of
        None \<Rightarrow> (False, messageTickets)
      | Some pt \<Rightarrow>
          (let cur = currentTickets pt messageType in
           if 0 < cur then
             (let pt' = AList.update messageType (cur - 1) pt in
              if \<not> hasAnyTickets pt'
              then (True, AList.delete phone messageTickets)
              else (True, AList.update phone pt' messageTickets))
           else (False, messageTickets)))"

definition addOutgoingTicketChatwoot :: "'p tickets \<Rightarrow> 'p \<Rightarrow> string \<Rightarrow> 'p tickets" where
  "addOutgoingTicketChatwoot messageTicketsChatwoot phone messageType =
     (let m1 = (if map_of messageTicketsChatwoot phone = None
                then AList.update phone [] messageTicketsChatwoot else messageTicketsChatwoot);
          pt = (case map_of m1 phone of None \<Rightarrow> [] | Some o1 \<Rightarrow> o1)
      in AList.update phone
           (AList.update messageType (currentTickets pt messageType + 1) pt) m1)"

text \<open>
  The helpdesk-side consume returns \<open>True\<close> when it finds nothing to consume and
  \<open>False\<close> when it decremented a counter.
\<close>

definition consumeOutgoingTicketChatwoot ::
  "'p tickets \<Rightarrow> 'p \<Rightarrow> string \<Rightarrow> bool \<times> 'p tickets" where
  "consumeOutgoingTicketChatwoot messageTicketsChatwoot phone messageType =
     (case map_of messageTicketsChatwoot phone of
        None \<Rightarrow> (True, messageTicketsChatwoot)
      | Some pt \<Rightarrow>
          (let cur = currentTickets pt messageType in
           if 0 < cur then
             (let pt' = AList.update messageType (cur - 1) pt in
              if \<not> hasAnyTickets pt'
              then (False, AList.delete phone messageTicketsChatwoot)
              else (False, AList.update phone pt' messageTicketsChatwoot))
           else (True, messageTicketsChatwoot)))"

subsection \<open>Reading the ledger\<close>

text \<open>The number of credits a map holds for a pair; 0 when the recipient or the kind is absent.\<close>

definition ticketCount :: "'p tickets \<Rightarrow> 'p \<Rightarrow> string \<Rightarrow> int" where
  "ticketCount m phone messageType =
     (case map_of m phone of None \<Rightarrow> 0 | Some pt \<Rightarrow> currentTickets pt messageType)"

text \<open>Whether a counter is stored for the pair at all (\<^verbatim>\<open>messageType in map.get(phone)\<close>).\<close>

definition hasCounter :: "'p tickets \<Rightarrow> 'p \<Rightarrow> string \<Rightarrow> bool" where
  "hasCounter m phone messageType =
     (case map_of m phone of None \<Rightarrow> False | Some pt \<Rightarrow> map_of pt messageType \<noteq> None)"

definition countersNonNegative :: "'p tickets \<Rightarrow> bool" where
  "countersNonNegative m = (\<forall>e \<in> set m. \<forall>kc \<in> set (snd e). 0 \<le> snd kc)"







section \<open>Message-id mapping cache (messageCache: messageIdCache)\<close>

text \<open>
  Helpdesk message ids reach the module as numbers or strings and are coerced with
  \<^verbatim>\<open>String(...)\<close> before they are used as keys. \<open>StringOf\<close> is that coercion: the
  identity on strings, the decimal numeral of a number.
\<close>

datatype js_id = Num nat | Str string

function decimal :: "nat \<Rightarrow> string" where
  "decimal n =
     (if n < 10 then [''0123456789'' ! n]
      else decimal (n div 10) @ [''0123456789'' ! (n mod 10)])"
  by pat_completeness auto
termination
  by (relation "measure id") auto

declare decimal.simps [simp del]

fun StringOf :: "js_id \<Rightarrow> string" where
  "StringOf (Str s) = s"
| "StringOf (Num n) = decimal n"

text \<open>
  \<^verbatim>\<open>x ? String(x) : null\<close> for the optional tags of an entry; \<open>None\<close> is
  \<^verbatim>\<open>null\<close>, and the number 0 and the empty string are falsy.
\<close>

fun stringOrNull :: "js_id option \<Rightarrow> string option" where
  "stringOrNull None = None"
| "stringOrNull (Some (Str s)) = (if s = [] then None else Some s)"
| "stringOrNull (Some (Num n)) = (if n = 0 then None else Some (decimal n))"

record cache_entry =
  apiMessageId :: string
  conversationId :: "string option"
  inboxId :: "string option"
  provider :: "string option"
  integrationId :: "string option"

text \<open>The \<^verbatim>\<open>Map\<close> in insertion order, which is the order the reverse lookups scan it in.\<close>

type_synonym messageIdCache = "(string \<times> cache_entry) list"

definition storeMessageIdMapping ::
  "messageIdCache \<Rightarrow> js_id \<Rightarrow> string \<Rightarrow> js_id option \<Rightarrow> js_id option \<Rightarrow> string option
     \<Rightarrow> js_id option \<Rightarrow> messageIdCache" where
  "storeMessageIdMapping cache chatwootMessageId apiMsgId convId inbId prov integId =
     AList.update (StringOf chatwootMessageId)
       \<lparr> apiMessageId = apiMsgId,
         conversationId = stringOrNull convId,
         inboxId = stringOrNull inbId,
         provider = (case prov of None \<Rightarrow> None | Some s \<Rightarrow> if s = [] then None else Some s),
         integrationId = stringOrNull integId \<rparr>
       cache"



definition removeMessageIdMapping :: "messageIdCache \<Rightarrow> js_id \<Rightarrow> messageIdCache" where
  "removeMessageIdMapping cache chatwootMessageId = AList.delete (StringOf chatwootMessageId) cache"

text \<open>Sequences of cache calls, to speak of every cache the operations can reach.\<close>

datatype cache_call =
    Store js_id string "js_id option" "js_id option" "string option" "js_id option"
  | Remove js_id
  | LookupApi js_id
  | LookupChatwoot string

fun cacheCall :: "messageIdCache \<Rightarrow> cache_call \<Rightarrow> messageIdCache" where
  "cacheCall c (Store h p cv ib pr ig) = storeMessageIdMapping c h p cv ib pr ig"
| "cacheCall c (Remove h) = removeMessageIdMapping c h"
| "cacheCall c (LookupApi h) = c"
| "cacheCall c (LookupChatwoot p) = c"

definition cacheRun :: "messageIdCache \<Rightarrow> cache_call list \<Rightarrow> messageIdCache" where
  "cacheRun c calls = foldl cacheCall c calls"




section \<open>The module state and the periodic cleanup\<close>

record ticket_maps =
  messageTickets :: "string option tickets"
  messageTicketsChatwoot :: "string option tickets"

record module_state = ticket_maps +
  messageIdCache :: messageIdCache

text \<open>
  The body of the timer callback in \<^verbatim>\<open>cleanupOldTickets\<close>; the line that would clear
  \<^verbatim>\<open>messageTicketsChatwoot\<close> is commented out in the source. The callback re-arms
  the same timer, so the state after \<open>n\<close> firings is \<open>(cleanupFiring ^^ n)\<close>.
\<close>

definition cleanupFiring :: "module_state \<Rightarrow> module_state" where
  "cleanupFiring s = s\<lparr> messageTickets := [], messageIdCache := [] \<rparr>"

definition cleanupDelayMs :: nat where
  "cleanupDelayMs = 60 * 60 * 5000"

section \<open>Phone utilities (utils/phone.js)\<close>

text \<open>The \<^verbatim>\<open>COUNTRY_CODES\<close> object, in the order \<^verbatim>\<open>Object.entries\<close> lists it.\<close>

definition COUNTRY_CODES :: "(string \<times> string) list" where
  "COUNTRY_CODES =
     [(''BR'', ''55''), (''US'', ''1''), (''CA'', ''1''), (''MX'', ''52''), (''AR'', ''54''),
      (''CL'', ''56''), (''CO'', ''57''), (''PE'', ''51''), (''VE'', ''58''), (''UY'', ''598''),
      (''PY'', ''595''), (''BO'', ''591''), (''EC'', ''593''), (''GY'', ''592''),
      (''SR'', ''597''), (''PT'', ''351''), (''ES'', ''34''), (''FR'', ''33''), (''DE'', ''49''),
      (''IT'', ''39''), (''GB'', ''44''), (''AU'', ''61''), (''NZ'', ''64''), (''JP'', ''81''),
      (''CN'', ''86''), (''IN'', ''91''), (''RU'', ''7''), (''ZA'', ''27''), (''EG'', ''20''),
      (''NG'', ''234''), (''KE'', ''254''), (''MA'', ''212''), (''DZ'', ''213''),
      (''TN'', ''216''), (''LY'', ''218''), (''SD'', ''249''), (''ET'', ''251''),
      (''SO'', ''252''), (''DJ'', ''253''), (''SS'', ''211''), (''CF'', ''236''),
      (''CM'', ''237''), (''TD'', ''235''), (''GA'', ''241''), (''CG'', ''242''),
      (''CD'', ''243''), (''AO'', ''244''), (''GW'', ''245''), (''IO'', ''246''),
      (''AC'', ''247''), (''SC'', ''248''), (''ST'', ''250''), (''GQ'', ''240''),
      (''GM'', ''220''), (''GN'', ''224''), (''SL'', ''232''), (''LR'', ''231''),
      (''CI'', ''225''), (''GH'', ''233''), (''TG'', ''228''), (''BJ'', ''229''),
      (''BF'', ''226''), (''ML'', ''223''), (''NE'', ''227''), (''SN'', ''221''),
      (''MR'', ''222''), (''CV'', ''238'')]"

text \<open>\<^verbatim>\<open>\d\<close> of a JavaScript regular expression without the unicode flag: \<open>0\<close> to \<open>9\<close>.\<close>

definition isDigit :: "char \<Rightarrow> bool" where
  "isDigit c = (c \<in> set ''0123456789'')"

text \<open>\<^verbatim>\<open>s.replace(/\D/g, '')\<close>\<close>

definition stripNonDigits :: "string \<Rightarrow> string" where
  "stripNonDigits s = filter isDigit s"

text \<open>
  \<^verbatim>\<open>toUpperCase\<close> on the letters \<open>a\<close> to \<open>z\<close>; country names are two ASCII letters, and
  other characters are left as they are.
\<close>

definition upperChar :: "char \<Rightarrow> char" where
  "upperChar c =
     (case map_of (zip ''abcdefghijklmnopqrstuvwxyz'' ''ABCDEFGHIJKLMNOPQRSTUVWXYZ'') c of
        None \<Rightarrow> c | Some u \<Rightarrow> u)"

definition toUpperCase :: "string \<Rightarrow> string" where
  "toUpperCase s = map upperChar s"

text \<open>
  \<open>None\<close> is \<^verbatim>\<open>null\<close> or \<^verbatim>\<open>undefined\<close>; these and the empty string are the falsy
  inputs of \<^verbatim>\<open>if (!phone) return null\<close>. The checks come in the order of the source: the
  leading \<open>+\<close> of the raw input, the leading \<open>00\<close> of the digits, any known country code as
  a prefix of the digits, and only then the default country.
\<close>

definition normalizeToE164 :: "string option \<Rightarrow> string \<Rightarrow> string option" where
  "normalizeToE164 phone defaultCountry =
     (case phone of
        None \<Rightarrow> None
      | Some ph \<Rightarrow>
          if ph = [] then None
          else
            (let cleanPhone = stripNonDigits ph in
             if prefix ''+'' ph then Some ph
             else if prefix ''00'' cleanPhone then Some (''+'' @ drop 2 cleanPhone)
             else if list_ex (\<lambda>entry. prefix (snd entry) cleanPhone) COUNTRY_CODES
               then Some (''+'' @ cleanPhone)
             else
               (case map_of COUNTRY_CODES (toUpperCase defaultCountry) of
                  Some defaultCode \<Rightarrow>
                    if defaultCode \<noteq> [] then Some (''+'' @ defaultCode @ cleanPhone)
                    else Some (''+'' @ cleanPhone)
                | None \<Rightarrow> Some (''+'' @ cleanPhone))))"

text \<open>The regular expression \<^verbatim>\<open>/^\+[1-9]\d{1,14}$/\<close>.\<close>

definition matchesE164 :: "string \<Rightarrow> bool" where
  "matchesE164 s =
     (case s of
        c0 # c1 # rest \<Rightarrow>
          c0 = CHR ''+'' \<and> c1 \<in> set ''123456789'' \<and>
          1 \<le> length rest \<and> length rest \<le> 14 \<and> list_all isDigit rest
      | _ \<Rightarrow> False)"

text \<open>
  The test for a group identifier that the processors and the provider client write as
  \<^verbatim>\<open>x.endsWith('@g.us') || x.endsWith('-group')\<close>.
\<close>

definition isGroupIdentifier :: "string \<Rightarrow> bool" where
  "isGroupIdentifier x = (suffix ''@g.us'' x \<or> suffix ''-group'' x)"

section \<open>Provider payload extraction (webhookConsumer.js: extractZapiData)\<close>

text \<open>
  Optional strings are \<open>string option\<close>, with \<open>None\<close> for \<^verbatim>\<open>null\<close> and
  \<^verbatim>\<open>undefined\<close>. \<open>truthy\<close> is JavaScript truthiness on them and \<open>orElse\<close> is
  \<^verbatim>\<open>a || b\<close>. Flags that the source reads as \<^verbatim>\<open>body?.flag || false\<close> are
  booleans. The media objects are carried as opaque values: only their presence is read.
\<close>

definition truthy :: "string option \<Rightarrow> bool" where
  "truthy x = (case x of None \<Rightarrow> False | Some s \<Rightarrow> s \<noteq> [])"

definition orElse :: "string option \<Rightarrow> string option \<Rightarrow> string option" where
  "orElse a b = (if truthy a then a else b)"

type_synonym media = string

record zapiBody =
  body_fromMe :: bool
  body_fromApi :: bool
  body_phone :: "string option"
  body_text_message :: "string option"
  body_isGroup :: bool
  body_photo :: "string option"
  body_senderPhoto :: "string option"
  body_status :: "string option"
  body_messageId :: "string option"
  body_referenceMessageId :: "string option"
  body_isEdit :: bool
  body_editMessageId :: "string option"
  body_chatName :: "string option"
  body_senderName :: "string option"
  body_image :: "media option"
  body_audio :: "media option"
  body_document :: "media option"
  body_video :: "media option"

record extractedData =
  phone :: "string option"
  lid :: "string option"
  jid :: "string option"
  textContent :: string
  contactName :: "string option"
  senderPhoto :: "string option"
  imageData :: "media option"
  audioData :: "media option"
  documentData :: "media option"
  videoData :: "media option"
  isGroup :: bool
  fromMe :: bool
  fromApi :: bool
  status :: "string option"
  messageId :: "string option"
  replyId :: "string option"
  origin :: string
  groupName :: "string option"
  senderName :: "string option"
  editedMessageId :: "string option"

text \<open>
  The extractor returns either the marker object
  \<^verbatim>\<open>{ ignored: true, reason, origin, groupName }\<close> or the extracted fields.
\<close>

datatype extraction = Ignored string string "string option" | Extracted extractedData

definition extractZapiData :: "zapiBody \<Rightarrow> bool \<Rightarrow> string \<Rightarrow> extraction" where
  "extractZapiData body desconsiderarGrupo defaultCountry =
     (let msgId = orElse (body_messageId body) None;
          editedId = (if body_isEdit body \<and> truthy msgId then msgId else None);
          newMessageId = (if body_isEdit body \<and> truthy (body_editMessageId body)
                          then body_editMessageId body else msgId);
          grpName = (if body_isGroup body
                     then orElse (body_chatName body) (Some ''Grupo sem nome'') else None);
          rawPhone = (if body_isGroup body then orElse (body_phone body) grpName
                      else body_phone body);
          nm = (if body_isGroup body then
                  (if \<not> body_fromMe body then orElse (body_senderName body) grpName else grpName)
                else
                  (if \<not> body_fromMe body
                   then orElse (body_senderName body)
                          (orElse (body_chatName body) (orElse rawPhone None))
                   else orElse (body_chatName body) (orElse rawPhone None)))
      in if body_isGroup body \<and> desconsiderarGrupo
         then Ignored ''group_disconsidered'' ''zapi'' grpName
         else Extracted
           \<lparr> phone = (if body_isGroup body then rawPhone
                       else normalizeToE164 rawPhone defaultCountry),
             lid = None,
             jid = None,
             textContent = (case body_text_message body of None \<Rightarrow> [] | Some t \<Rightarrow> t),
             contactName = nm,
             senderPhoto = (if body_isGroup body then None
                            else orElse (body_photo body) (orElse (body_senderPhoto body) None)),
             imageData = body_image body,
             audioData = body_audio body,
             documentData = body_document body,
             videoData = body_video body,
             isGroup = body_isGroup body,
             fromMe = body_fromMe body,
             fromApi = body_fromApi body,
             status = orElse (body_status body) None,
             messageId = orElse newMessageId msgId,
             replyId = body_referenceMessageId body,
             origin = ''zapi'',
             groupName = grpName,
             senderName = (if body_isGroup body \<and> \<not> body_fromMe body
                           then body_senderName body else None),
             editedMessageId = editedId \<rparr>)"

section \<open>The other extractors (webhookConsumer.js: extractUazapiData, extractWuzapiData, extractMessageData)\<close>

text \<open>
  \<^verbatim>\<open>s.replace(pattern, replacement)\<close> with a string pattern replaces the first occurrence
  only.
\<close>

fun replaceFirst :: "string \<Rightarrow> string \<Rightarrow> string \<Rightarrow> string" where
  "replaceFirst pat rep [] = (if pat = [] then rep else [])"
| "replaceFirst pat rep (c # cs) =
     (if prefix pat (c # cs) then rep @ drop (length pat) (c # cs)
      else c # replaceFirst pat rep cs)"

text \<open>\<^verbatim>\<open>x?.replace('@s.whatsapp.net', '')\<close>\<close>

definition stripJid :: "string option \<Rightarrow> string option" where
  "stripJid x = map_option (replaceFirst ''@s.whatsapp.net'' []) x"

text \<open>
  The fields of a UAZAPI payload that the extractor reads: those of \<^verbatim>\<open>body.message\<close>,
  those of \<^verbatim>\<open>body.chat\<close> (all absent when there is no chat object) and three of the
  body itself. The media objects are opaque here too and stand for the message's URL.
\<close>

record uazapiMessage =
  msg_content_text :: "string option"
  msg_text :: "string option"
  msg_fromMe :: bool
  msg_sender :: "string option"
  msg_chatid :: "string option"
  msg_senderName :: "string option"
  msg_isGroup :: bool
  msg_groupName :: "string option"
  msg_messageid :: "string option"
  msg_id :: "string option"
  msg_status :: "string option"
  msg_wasSentByApi :: bool
  msg_stanzaID :: "string option"
  msg_edited :: "string option"
  msg_editMessageId :: "string option"
  msg_senderProfilePic :: "string option"
  msg_mediaType :: "string option"
  msg_messageType :: "string option"
  msg_content_URL :: "string option"

record uazapiBody =
  uaz_message :: "uazapiMessage option"
  chat_name :: "string option"
  chat_wa_name :: "string option"
  chat_wa_contactName :: "string option"
  chat_wa_chatid :: "string option"
  chat_imagePreview :: "string option"
  chat_image :: "string option"
  chat_thumbnail :: "string option"
  uaz_name :: "string option"
  uaz_imagePreview :: "string option"
  uaz_image :: "string option"

text \<open>
  The sender or chat the phone of a UAZAPI message that is not a group is taken from:
  \<^verbatim>\<open>message.chatid\<close> for a message of the agent, else \<^verbatim>\<open>message.sender\<close> and then
  \<^verbatim>\<open>message.chatid\<close>, each without its \<^verbatim>\<open>@s.whatsapp.net\<close>.
\<close>

definition uazapiRawPhone :: "uazapiMessage \<Rightarrow> string option" where
  "uazapiRawPhone message =
     (if msg_fromMe message then stripJid (msg_chatid message)
      else orElse (stripJid (msg_sender message)) (stripJid (msg_chatid message)))"

text \<open>\<open>None\<close> is the \<^verbatim>\<open>null\<close> returned for a payload without \<^verbatim>\<open>message\<close>.\<close>

definition extractUazapiData :: "uazapiBody \<Rightarrow> bool \<Rightarrow> string \<Rightarrow> extraction option" where
  "extractUazapiData body desconsiderarGrupo defaultCountry =
     (case uaz_message body of
        None \<Rightarrow> None
      | Some message \<Rightarrow>
          Some
            (let txt = (case orElse (msg_content_text message) (orElse (msg_text message) None) of
                          None \<Rightarrow> [] | Some t \<Rightarrow> t);
                 chatContactName =
                   orElse (chat_name body) (orElse (chat_wa_name body)
                     (orElse (chat_wa_contactName body) (orElse (uaz_name body) None)));
                 rawPhone = uazapiRawPhone message;
                 nm = (if \<not> msg_fromMe message
                       then orElse (msg_senderName message) (orElse chatContactName None)
                       else orElse chatContactName
                              (orElse rawPhone (orElse (msg_senderName message) None)));
                 grpName = orElse (msg_groupName message) (orElse (chat_name body) (Some []));
                 msgId = orElse (msg_messageid message) (orElse (msg_id message) None);
                 stat = orElse (msg_status message) None;
                 reply = orElse (msg_stanzaID message) None;
                 edited = orElse (msg_edited message) (orElse (msg_editMessageId message) None);
                 waChatId = orElse (chat_wa_chatid body) (orElse (msg_chatid message) None);
                 url = (case orElse (msg_content_URL message) None of
                          None \<Rightarrow> [] | Some u \<Rightarrow> u)
             in if msg_isGroup message \<and> desconsiderarGrupo
                then Ignored ''group_disconsidered'' ''uazapi'' grpName
                else if msg_isGroup message \<and> \<not> truthy waChatId
                then Extracted
                  \<lparr> phone = None, lid = None, jid = None, textContent = txt,
                    contactName = orElse grpName (Some ''Grupo sem nome''),
                    senderPhoto = None, imageData = None, audioData = None,
                    documentData = None, videoData = None,
                    isGroup = msg_isGroup message, fromMe = msg_fromMe message,
                    fromApi = msg_wasSentByApi message, status = stat, messageId = msgId,
                    replyId = None, origin = ''uazapi'', groupName = grpName,
                    senderName = None, editedMessageId = None \<rparr>
                else Extracted
                  \<lparr> phone = (if msg_isGroup message then waChatId
                              else normalizeToE164 rawPhone defaultCountry),
                    lid = None,
                    jid = None,
                    textContent = txt,
                    contactName =
                      (if msg_isGroup message then
                         (if \<not> msg_fromMe message
                          then orElse (msg_senderName message)
                                 (orElse grpName (Some ''Grupo sem nome''))
                          else orElse grpName (Some ''Grupo sem nome''))
                       else nm),
                    senderPhoto =
                      orElse (chat_imagePreview body) (orElse (chat_image body)
                        (orElse (chat_thumbnail body) (orElse (uaz_imagePreview body)
                          (orElse (uaz_image body)
                            (orElse (msg_senderProfilePic message) None))))),
                    imageData = (if msg_mediaType message = Some ''image'' \<or>
                                    msg_messageType message = Some ''ImageMessage''
                                 then Some url else None),
                    audioData = (if msg_mediaType message = Some ''ptt'' \<or>
                                    msg_messageType message = Some ''AudioMessage''
                                 then Some url else None),
                    documentData = (if msg_mediaType message = Some ''document'' \<or>
                                       msg_messageType message = Some ''DocumentMessage''
                                    then Some url else None),
                    videoData = (if msg_mediaType message = Some ''video'' \<or>
                                    msg_messageType message = Some ''VideoMessage''
                                 then Some url else None),
                    isGroup = msg_isGroup message,
                    fromMe = msg_fromMe message,
                    fromApi = msg_wasSentByApi message,
                    status = stat,
                    messageId = msgId,
                    replyId = reply,
                    origin = ''uazapi'',
                    groupName = grpName,
                    senderName = (if msg_isGroup message \<and> \<not> msg_fromMe message
                                  then msg_senderName message else None),
                    editedMessageId = edited \<rparr>))"

text \<open>
  The fields of a Wuzapi payload that the extractor reads: those of \<^verbatim>\<open>body.event.Info\<close>,
  the texts and media messages of \<^verbatim>\<open>body.event.Message\<close>, and \<^verbatim>\<open>body.base64\<close>,
  which stands for the opaque media object.
\<close>

record wuzapiMedia =
  wz_caption :: "string option"

record wuzapiBody =
  info_Chat :: "string option"
  info_IsFromMe :: bool
  info_PushName :: "string option"
  info_Sender :: "string option"
  info_IsGroup :: bool
  info_ID :: "string option"
  info_GroupName :: "string option"
  info_ChatName :: "string option"
  wmsg_conversation :: "string option"
  wmsg_extendedText :: "string option"
  wmsg_imageMessage :: "wuzapiMedia option"
  wmsg_audioMessage :: "wuzapiMedia option"
  wmsg_documentMessage :: "wuzapiMedia option"
  wmsg_videoMessage :: "wuzapiMedia option"
  wz_base64 :: "string option"

definition captionOf :: "wuzapiMedia option \<Rightarrow> string option" where
  "captionOf m = (case m of None \<Rightarrow> None | Some x \<Rightarrow> wz_caption x)"

text \<open>
  The name of a Wuzapi group:
  \<^verbatim>\<open>GroupName || ChatName || Chat?.replace('@lid', '').replace('@g.us', '') || 'Grupo sem nome'\<close>.
\<close>

definition wuzapiGroupName :: "wuzapiBody \<Rightarrow> string option" where
  "wuzapiGroupName body =
     orElse (info_GroupName body) (orElse (info_ChatName body)
       (orElse (map_option (\<lambda>c. replaceFirst ''@g.us'' [] (replaceFirst ''@lid'' [] c))
                  (info_Chat body))
          (Some ''Grupo sem nome'')))"

definition extractWuzapiData :: "wuzapiBody \<Rightarrow> bool \<Rightarrow> string \<Rightarrow> extraction" where
  "extractWuzapiData body desconsiderarGrupo defaultCountry =
     (let rawChatId = (case orElse (info_Chat body) None of None \<Rightarrow> [] | Some c \<Rightarrow> c);
          isLid = suffix ''@lid'' rawChatId;
          isJid = (\<not> isLid \<and> suffix ''@s.whatsapp.net'' rawChatId);
          phone0 = (if isLid then None
                    else if isJid
                    then normalizeToE164
                           (Some (replaceFirst ''@s.whatsapp.net'' [] rawChatId)) defaultCountry
                    else Some rawChatId);
          lid0 = (if isLid then Some rawChatId else None);
          jid0 = (if isJid then Some rawChatId else None);
          txt = (case orElse (wmsg_conversation body) (orElse (wmsg_extendedText body)
                        (orElse (captionOf (wmsg_imageMessage body))
                          (orElse (captionOf (wmsg_videoMessage body))
                            (orElse (captionOf (wmsg_documentMessage body))
                              (orElse (captionOf (wmsg_audioMessage body)) None))))) of
                   None \<Rightarrow> [] | Some t \<Rightarrow> t);
          nm0 = (if \<not> info_IsFromMe body
                 then orElse (info_PushName body) (orElse (stripJid (info_Sender body)) None)
                 else orElse (Some rawChatId) None);
          grpName = (if info_IsGroup body then wuzapiGroupName body else None);
          b64 = (case orElse (wz_base64 body) None of None \<Rightarrow> [] | Some b \<Rightarrow> b)
      in if info_IsGroup body \<and> desconsiderarGrupo
         then Ignored ''group_disconsidered'' ''wuzapi'' grpName
         else Extracted
           \<lparr> phone = (if info_IsGroup body \<and> \<not> truthy lid0 then grpName else phone0),
             lid = (if info_IsGroup body \<and> \<not> truthy lid0 then None else lid0),
             jid = (if info_IsGroup body \<and> \<not> truthy lid0 then None else jid0),
             textContent = txt,
             contactName =
               (if info_IsGroup body then
                  (if \<not> info_IsFromMe body then orElse (info_PushName body) grpName
                   else grpName)
                else nm0),
             senderPhoto = None,
             imageData = (case wmsg_imageMessage body of None \<Rightarrow> None | Some x \<Rightarrow> Some b64),
             audioData = (case wmsg_audioMessage body of None \<Rightarrow> None | Some x \<Rightarrow> Some b64),
             documentData =
               (case wmsg_documentMessage body of None \<Rightarrow> None | Some x \<Rightarrow> Some b64),
             videoData = (case wmsg_videoMessage body of None \<Rightarrow> None | Some x \<Rightarrow> Some b64),
             isGroup = info_IsGroup body,
             fromMe = info_IsFromMe body,
             fromApi = False,
             status = None,
             messageId = orElse (info_ID body) None,
             replyId = None,
             origin = ''wuzapi'',
             groupName = grpName,
             senderName = (if info_IsGroup body \<and> \<not> info_IsFromMe body
                           then orElse (info_PushName body) (stripJid (info_Sender body))
                           else None),
             editedMessageId = None \<rparr>)"

text \<open>
  The \<^verbatim>\<open>default\<close> branch of \<^verbatim>\<open>extractMessageData\<close>, taken for a payload of unknown
  origin. It normalizes whatever identifier it finds and sets \<^verbatim>\<open>isGroup\<close> itself.
\<close>

record unknownBody =
  unk_phone :: "string option"
  unk_from :: "string option"
  unk_number :: "string option"
  unk_remoteJid :: "string option"
  unk_text :: "string option"
  unk_message :: "string option"
  unk_body :: "string option"
  unk_name :: "string option"
  unk_contact_name :: "string option"
  unk_fromMe :: bool
  unk_image :: "media option"
  unk_audio :: "media option"
  unk_document :: "media option"
  unk_video :: "media option"

definition extractMessageDataDefault :: "unknownBody \<Rightarrow> string \<Rightarrow> extractedData" where
  "extractMessageDataDefault body defaultCountry =
     \<lparr> phone = normalizeToE164
                 (orElse (unk_phone body) (orElse (unk_from body)
                    (orElse (unk_number body) (unk_remoteJid body))))
                 defaultCountry,
       lid = None,
       jid = None,
       textContent = (case orElse (unk_text body) (orElse (unk_message body)
                              (orElse (unk_body body) (Some []))) of
                        None \<Rightarrow> [] | Some t \<Rightarrow> t),
       contactName = orElse (unk_name body) (orElse (unk_contact_name body) None),
       senderPhoto = None,
       imageData = unk_image body,
       audioData = unk_audio body,
       documentData = unk_document body,
       videoData = unk_video body,
       isGroup = True,
       fromMe = unk_fromMe body,
       fromApi = False,
       status = None,
       messageId = None,
       replyId = None,
       origin = ''unknown'',
       groupName = None,
       senderName = None,
       editedMessageId = None \<rparr>"

section \<open>Helpdesk contact creation (chatwoot.js: createContact)\<close>

record contactData =
  contact_name :: string
  contact_identifier :: string
  contact_phone_number :: "string option"

text \<open>
  The payload \<^verbatim>\<open>contactData\<close> that every branch of \<^verbatim>\<open>createContact\<close> posts (the
  avatar branches add only avatar fields to it); \<open>Inl\<close> is the thrown error. The
  identifier is the first truthy one of lid, jid and phone, as the \<^verbatim>\<open>if\<close> chain of the
  source picks it. Error messages are written without their accents.
\<close>

definition createContact ::
  "string option \<Rightarrow> string option \<Rightarrow> string option \<Rightarrow> string option \<Rightarrow> string + contactData" where
  "createContact phoneArg nameArg lidArg jidArg =
     (let nameOr = (\<lambda>ident. case orElse nameArg None of
                                Some n \<Rightarrow> n | None \<Rightarrow> ''Contato '' @ ident);
          phoneNumber = (case phoneArg of
                           None \<Rightarrow> None
                         | Some ph \<Rightarrow> if ph \<noteq> [] \<and> matchesE164 ph then Some ph else None)
      in case orElse lidArg (orElse jidArg (orElse phoneArg None)) of
           Some ident \<Rightarrow>
             Inr \<lparr> contact_name = nameOr ident, contact_identifier = ident,
                   contact_phone_number = phoneNumber \<rparr>
         | None \<Rightarrow> Inl ''Nenhum identificador valido fornecido (phone, lid ou jid)'')"

text \<open>
  The contact that \<^verbatim>\<open>processIncomingMessage\<close> and \<^verbatim>\<open>processOutgoingMessage\<close> ask
  for when no contact is found: a group with a name is created under the group name and
  without lid or jid.
\<close>

definition contactForEvent :: "extractedData \<Rightarrow> string + contactData" where
  "contactForEvent d =
     (if isGroup d \<and> truthy (groupName d)
      then createContact (phone d) (groupName d) None None
      else createContact (phone d) (contactName d) (lid d) (jid d))"

section \<open>Provider events after extraction (webhookConsumer.js: processWebhookPrincipal)\<close>

text \<open>
  The part of \<^verbatim>\<open>processWebhookPrincipal\<close> that follows the extraction and its guards:
  the three-way split on \<^verbatim>\<open>fromMe\<close> and \<^verbatim>\<open>fromApi\<close>. The helpdesk client is
  outside the function: each call to it is recorded with the recipient it is given, and
  whether the call throws is the parameter \<open>chatwootThrows\<close>. The function returns the
  outcome, the two credit maps after the event and the helpdesk calls made.
\<close>

datatype chatwoot_call =
    ProcessOutgoingMessage "string option"
  | ProcessIncomingMessage "string option"

datatype principal_result = Processed | Thrown

definition messageTypeOf :: "extractedData \<Rightarrow> string" where
  "messageTypeOf d =
     (if imageData d \<noteq> None then ''image''
      else if audioData d \<noteq> None then ''audio''
      else if videoData d \<noteq> None then ''video''
      else if documentData d \<noteq> None then ''document''
      else ''text'')"

definition processWebhookPrincipal ::
  "bool \<Rightarrow> extractedData \<Rightarrow> ticket_maps
     \<Rightarrow> principal_result \<times> ticket_maps \<times> chatwoot_call list" where
  "processWebhookPrincipal chatwootThrows d s =
     (if fromMe d \<and> \<not> fromApi d then
        (let messageType = messageTypeOf d;
             s1 = s\<lparr> messageTickets :=
                       addOutgoingTicket (messageTickets s) (phone d) messageType \<rparr>
         in if chatwootThrows
            then (Thrown,
                  s1\<lparr> messageTickets :=
                        snd (consumeOutgoingTicket (messageTickets s1) (phone d) messageType) \<rparr>,
                  [ProcessOutgoingMessage (phone d)])
            else (Processed, s1, [ProcessOutgoingMessage (phone d)]))
      else if fromMe d \<and> fromApi d then
        (let messageType = messageTypeOf d;
             consumed = consumeOutgoingTicketChatwoot
                          (messageTicketsChatwoot s) (phone d) messageType;
             s1 = s\<lparr> messageTicketsChatwoot := snd consumed \<rparr>
         in if fst consumed then
              (let s2 = s1\<lparr> messageTickets :=
                             addOutgoingTicket (messageTickets s1) (phone d) messageType \<rparr>
               in if chatwootThrows
                  then (Thrown,
                        s2\<lparr> messageTickets :=
                              snd (consumeOutgoingTicket (messageTickets s2) (phone d)
                                     messageType) \<rparr>,
                        [ProcessOutgoingMessage (phone d)])
                  else (Processed, s2, [ProcessOutgoingMessage (phone d)]))
            else (Processed, s1, []))
      else (if chatwootThrows then Thrown else Processed, s,
            [ProcessIncomingMessage (phone d)]))"

section \<open>Message kind of a helpdesk callback (messageCache: getMessageType)\<close>

record attachment =
  file_type :: "string option"
  data_url :: "string option"
  extension :: "string option"

text \<open>
  \<open>None\<close> for the attachments is \<^verbatim>\<open>null\<close> (falsy) or \<^verbatim>\<open>undefined\<close> (replaced by the
  default \<^verbatim>\<open>[]\<close>).
\<close>

definition getMessageType :: "string \<Rightarrow> attachment list option \<Rightarrow> string" where
  "getMessageType content attachments =
     (case attachments of
        None \<Rightarrow> ''text''
      | Some [] \<Rightarrow> ''text''
      | Some (firstAttachment # rest) \<Rightarrow>
          (if file_type firstAttachment = Some ''audio'' then ''audio''
           else if file_type firstAttachment = Some ''image'' then ''image''
           else if file_type firstAttachment = Some ''video'' then ''video''
           else if file_type firstAttachment = Some ''file'' then ''document''
           else ''text''))"

text \<open>\<^verbatim>\<open>getMessageType(content, body.attachments || [])\<close> in \<^verbatim>\<open>processWebhookCallback\<close>.\<close>

definition callbackMessageType :: "string \<Rightarrow> attachment list option \<Rightarrow> string" where
  "callbackMessageType content bodyAttachments =
     getMessageType content (Some (case bodyAttachments of None \<Rightarrow> [] | Some as \<Rightarrow> as))"

section \<open>Deleting a message at the provider (whatsapp.js)\<close>

text \<open>
  The HTTP client is a parameter: it answers a request with the response data or with the
  message of the error it throws. Each function returns its result together with the
  requests it sent. Query parameters and JSON bodies are lists of named values.
\<close>

datatype http_value = StrVal string | BoolVal bool

record http_request =
  http_method :: string
  http_path :: string
  http_params :: "(string \<times> http_value) list"
  http_body :: "(string \<times> http_value) list"

type_synonym http_client = "http_request \<Rightarrow> string + string"

record delete_options =
  recipient :: "string option"
  owner :: "bool option"

definition deleteViaUAZAPI ::
  "http_client \<Rightarrow> string \<Rightarrow> (string + string \<times> string) \<times> http_request list" where
  "deleteViaUAZAPI client msgId =
     (let req = \<lparr> http_method = ''POST'', http_path = ''/message/delete'', http_params = [],
                   http_body = [(''id'', StrVal msgId)] \<rparr>
      in case client req of
           Inr data \<Rightarrow> (Inr (''uazapi'', data), [req])
         | Inl err \<Rightarrow> (Inl (''Falha ao deletar mensagem UAZAPI: '' @ err), [req]))"

definition deleteViaZAPI ::
  "http_client \<Rightarrow> string \<Rightarrow> delete_options
     \<Rightarrow> (string + string \<times> string) \<times> http_request list" where
  "deleteViaZAPI client msgId options =
     (let rcpt = (case recipient options of None \<Rightarrow> [] | Some r \<Rightarrow> r);
          own = (owner options \<noteq> Some False)
      in if rcpt = [] then
           (Inl (''Falha ao deletar mensagem Z-API: '' @
                 ''Recipient (phone ou id do grupo) e obrigatorio para deletar mensagem via Z-API''),
            [])
         else
           (case (if suffix ''@g.us'' rcpt then Inr rcpt
                  else if suffix ''-group'' rcpt then Inr rcpt
                  else (let digitsOnly = stripNonDigits rcpt
                        in if digitsOnly = []
                           then Inl (''Recipient invalido para delecao via Z-API: '' @ rcpt)
                           else Inr digitsOnly)) of
              Inl msg \<Rightarrow> (Inl (''Falha ao deletar mensagem Z-API: '' @ msg), [])
            | Inr phoneParam \<Rightarrow>
                (let req = \<lparr> http_method = ''DELETE'', http_path = ''/messages'',
                             http_params = [(''messageId'', StrVal msgId),
                                            (''phone'', StrVal phoneParam),
                                            (''owner'', BoolVal own)],
                             http_body = [] \<rparr>
                 in case client req of
                      Inr data \<Rightarrow> (Inr (''zapi'', data), [req])
                    | Inl err \<Rightarrow> (Inl (''Falha ao deletar mensagem Z-API: '' @ err), [req]))))"

definition deleteViaWuzapi ::
  "http_client \<Rightarrow> string \<Rightarrow> (string + string \<times> string) \<times> http_request list" where
  "deleteViaWuzapi client msgId =
     (let req = \<lparr> http_method = ''POST'', http_path = ''/chat/delete'', http_params = [],
                   http_body = [(''MessageId'', StrVal msgId)] \<rparr>
      in case client req of
           Inr data \<Rightarrow> (Inr (''wuzapi'', data), [req])
         | Inl err \<Rightarrow> (Inl (''Falha ao deletar mensagem Wuzapi: '' @ err), [req]))"

text \<open>
  \<^verbatim>\<open>deleteMessage\<close> switches on the provider of the service; the options reach only the
  Z-API function, whose siblings take the message id alone.
\<close>

definition deleteMessage ::
  "string \<Rightarrow> http_client \<Rightarrow> string \<Rightarrow> delete_options
     \<Rightarrow> (string + string \<times> string) \<times> http_request list" where
  "deleteMessage providerName client msgId options =
     (if providerName = ''zapi'' then deleteViaZAPI client msgId options
      else if providerName = ''uazapi'' then deleteViaUAZAPI client msgId
      else if providerName = ''wuzapi'' then deleteViaWuzapi client msgId
      else (Inl (''API nao suportada: '' @ providerName), []))"


section \<open>Statement helpers and example inputs\<close>

text \<open>
  The kind of a callback as the table it is described by: the first attachment's file type
  decides, \<open>audio\<close>, \<open>image\<close> and \<open>video\<close> map to themselves, \<open>file\<close> maps to
  \<open>document\<close>, and everything else, an empty list included, is \<open>text\<close>.
\<close>

definition kindByFirstFileType :: "attachment list \<Rightarrow> string" where
  "kindByFirstFileType attachments =
     (case attachments of
        [] \<Rightarrow> ''text''
      | a # _ \<Rightarrow>
          (case file_type a of
             None \<Rightarrow> ''text''
           | Some ft \<Rightarrow>
               (case map_of [(''audio'', ''audio''), (''image'', ''image''),
                             (''video'', ''video''), (''file'', ''document'')] ft of
                  None \<Rightarrow> ''text'' | Some k \<Rightarrow> k)))"

text \<open>The request of the Z-API dialect: \<^verbatim>\<open>DELETE /messages?messageId=&phone=&owner=\<close>.\<close>

definition zapiDeleteRequest :: "string \<Rightarrow> string \<Rightarrow> bool \<Rightarrow> http_request" where
  "zapiDeleteRequest msgId phoneParam own =
     \<lparr> http_method = ''DELETE'', http_path = ''/messages'',
       http_params = [(''messageId'', StrVal msgId), (''phone'', StrVal phoneParam),
                      (''owner'', BoolVal own)],
       http_body = [] \<rparr>"

text \<open>An echo of a text message that the API sent (\<open>fromMe\<close> and \<open>fromApi\<close> both set).\<close>

definition apiEchoEvent :: extractedData where
  "apiEchoEvent =
     \<lparr> phone = Some ''+5511999998888'', lid = None, jid = None, textContent = ''hi'',
       contactName = Some ''Maria'', senderPhoto = None, imageData = None, audioData = None,
       documentData = None, videoData = None, isGroup = False, fromMe = True, fromApi = True,
       status = Some ''SENT'', messageId = Some ''3EB0C767D0'', replyId = None,
       origin = ''zapi'', groupName = None, senderName = None, editedMessageId = None \<rparr>"

text \<open>A Z-API group message and the fields extracted from it when groups are processed.\<close>

definition zapiGroupBody :: zapiBody where
  "zapiGroupBody =
     \<lparr> body_fromMe = False, body_fromApi = False,
       body_phone = Some ''120363407124580783-group'', body_text_message = Some ''oi'',
       body_isGroup = True, body_photo = None, body_senderPhoto = None,
       body_status = Some ''RECEIVED'', body_messageId = Some ''3EB0C767D0'',
       body_referenceMessageId = None, body_isEdit = False, body_editMessageId = None,
       body_chatName = Some ''Familia'', body_senderName = Some ''Ana'',
       body_image = None, body_audio = None, body_document = None, body_video = None \<rparr>"

definition zapiGroupExtracted :: extractedData where
  "zapiGroupExtracted =
     \<lparr> phone = Some ''120363407124580783-group'', lid = None, jid = None,
       textContent = ''oi'', contactName = Some ''Ana'', senderPhoto = None,
       imageData = None, audioData = None, documentData = None, videoData = None,
       isGroup = True, fromMe = False, fromApi = False, status = Some ''RECEIVED'',
       messageId = Some ''3EB0C767D0'', replyId = None, origin = ''zapi'',
       groupName = Some ''Familia'', senderName = Some ''Ana'', editedMessageId = None \<rparr>"

text \<open>
  The same Z-API message with a group-shaped phone but without the group flag, and the
  fields extracted from it.
\<close>

definition zapiUnflaggedBody :: zapiBody where
  "zapiUnflaggedBody =
     \<lparr> body_fromMe = False, body_fromApi = False,
       body_phone = Some ''5511999998888-group'', body_text_message = Some ''oi'',
       body_isGroup = False, body_photo = None, body_senderPhoto = None,
       body_status = Some ''RECEIVED'', body_messageId = Some ''3EB0C767D0'',
       body_referenceMessageId = None, body_isEdit = False, body_editMessageId = None,
       body_chatName = Some ''Familia'', body_senderName = Some ''Ana'',
       body_image = None, body_audio = None, body_document = None, body_video = None \<rparr>"

definition zapiUnflaggedExtracted :: extractedData where
  "zapiUnflaggedExtracted =
     \<lparr> phone = Some ''+5511999998888'', lid = None, jid = None,
       textContent = ''oi'', contactName = Some ''Ana'', senderPhoto = None,
       imageData = None, audioData = None, documentData = None, videoData = None,
       isGroup = False, fromMe = False, fromApi = False, status = Some ''RECEIVED'',
       messageId = Some ''3EB0C767D0'', replyId = None, origin = ''zapi'',
       groupName = None, senderName = None, editedMessageId = None \<rparr>"

text \<open>A UAZAPI message of a group, with and without the group flag, and its payload.\<close>

definition uazapiGroupMessage :: uazapiMessage where
  "uazapiGroupMessage =
     \<lparr> msg_content_text = Some ''oi'', msg_text = None, msg_fromMe = False,
       msg_sender = Some ''120363378985956346@g.us'',
       msg_chatid = Some ''120363378985956346@g.us'', msg_senderName = Some ''Ana'',
       msg_isGroup = True, msg_groupName = Some ''Familia'',
       msg_messageid = Some ''3EB0C767D0'', msg_id = None, msg_status = None,
       msg_wasSentByApi = False, msg_stanzaID = None, msg_edited = None,
       msg_editMessageId = None, msg_senderProfilePic = None, msg_mediaType = None,
       msg_messageType = None, msg_content_URL = None \<rparr>"

definition uazapiBodyOf :: "uazapiMessage \<Rightarrow> uazapiBody" where
  "uazapiBodyOf message =
     \<lparr> uaz_message = Some message, chat_name = Some ''Familia'', chat_wa_name = None,
       chat_wa_contactName = None, chat_wa_chatid = Some ''120363378985956346@g.us'',
       chat_imagePreview = None, chat_image = None, chat_thumbnail = None,
       uaz_name = None, uaz_imagePreview = None, uaz_image = None \<rparr>"

text \<open>A Wuzapi message of a group.\<close>

definition wuzapiGroupBody :: wuzapiBody where
  "wuzapiGroupBody =
     \<lparr> info_Chat = Some ''120363378985956346@g.us'', info_IsFromMe = False,
       info_PushName = Some ''Ana'', info_Sender = Some ''5511988887777@s.whatsapp.net'',
       info_IsGroup = True, info_ID = Some ''3EB0C767D0'', info_GroupName = Some ''Familia'',
       info_ChatName = None, wmsg_conversation = Some ''oi'', wmsg_extendedText = None,
       wmsg_imageMessage = None, wmsg_audioMessage = None, wmsg_documentMessage = None,
       wmsg_videoMessage = None, wz_base64 = None \<rparr>"

text \<open>The phone of an extraction result; \<open>None\<close> also for a dropped event.\<close>

definition extractedPhone :: "extraction \<Rightarrow> string option" where
  "extractedPhone x = (case x of Ignored r og g \<Rightarrow> None | Extracted d \<Rightarrow> phone d)"


section \<open>Properties of the credit ledger\<close>

lemma currentTickets_update:
  "currentTickets (AList.update t v pt) k = (if k = t then v else currentTickets pt k)"
  by (simp add: currentTickets_def update_conv')

lemma nonneg_current: "\<forall>kc \<in> set pt. 0 \<le> snd kc \<Longrightarrow> 0 \<le> currentTickets pt k"
  by (auto simp: currentTickets_def split: option.splits dest!: map_of_SomeD)

lemma no_tickets_current:
  "\<not> hasAnyTickets pt \<Longrightarrow> currentTickets pt k \<le> 0"
  by (auto simp: hasAnyTickets_def list_ex_iff currentTickets_def split: option.splits dest!: map_of_SomeD)

lemma ticketCount_add:
  "ticketCount (addOutgoingTicket m p t) q k =
     (if q = p \<and> k = t then ticketCount m p t + 1 else ticketCount m q k)"
  by (auto simp: addOutgoingTicket_def ticketCount_def Let_def update_conv' currentTickets_update
      currentTickets_def split: option.splits)

lemma set_update_subset: "set (AList.update k v al) \<subseteq> insert (k, v) (set al)"
  by (induction al) auto

lemma add_chatwoot_eq: "addOutgoingTicketChatwoot m p t = addOutgoingTicket m p t"
  by (simp add: addOutgoingTicketChatwoot_def addOutgoingTicket_def)

lemma consume_chatwoot_snd:
  "snd (consumeOutgoingTicketChatwoot m p t) = snd (consumeOutgoingTicket m p t)"
  by (simp add: consumeOutgoingTicketChatwoot_def consumeOutgoingTicket_def Let_def
      split: option.splits)

lemma consume_chatwoot_fst:
  "fst (consumeOutgoingTicketChatwoot m p t) = (\<not> fst (consumeOutgoingTicket m p t))"
  by (simp add: consumeOutgoingTicketChatwoot_def consumeOutgoingTicket_def Let_def
      split: option.splits)

lemma consume_fst: "fst (consumeOutgoingTicket m p t) = (0 < ticketCount m p t)"
  by (simp add: consumeOutgoingTicket_def ticketCount_def Let_def split: option.splits)

lemma in_set_update: "e \<in> set (AList.update k v al) \<Longrightarrow> e = (k, v) \<or> e \<in> set al"
  using set_update_subset by fastforce

lemma add_alt:
  "addOutgoingTicket m p t =
     (let pt = (case map_of m p of None \<Rightarrow> [] | Some o1 \<Rightarrow> o1)
      in AList.update p (AList.update t (currentTickets pt t + 1) pt) m)"
  by (auto simp: addOutgoingTicket_def Let_def update_conv' split: option.splits)

lemma nonneg_lookup:
  "countersNonNegative m \<Longrightarrow> map_of m p = Some pt \<Longrightarrow> \<forall>kc \<in> set pt. 0 \<le> snd kc"
  unfolding countersNonNegative_def by (fastforce dest: map_of_SomeD)

lemma nonneg_lookup_default:
  assumes "countersNonNegative m"
  shows "\<forall>kc \<in> set (case map_of m p of None \<Rightarrow> [] | Some o1 \<Rightarrow> o1). 0 \<le> snd kc"
proof (cases "map_of m p")
  case None
  then show ?thesis by simp
next
  case (Some o1)
  then show ?thesis using nonneg_lookup[OF assms Some] by simp
qed

lemma nonneg_update:
  "countersNonNegative m \<Longrightarrow> \<forall>kc \<in> set pt. 0 \<le> snd kc \<Longrightarrow>
     countersNonNegative (AList.update p pt m)"
  unfolding countersNonNegative_def by (auto dest!: in_set_update)





lemma nonneg_entry_update:
  "\<forall>kc \<in> set pt. 0 \<le> snd kc \<Longrightarrow> 0 \<le> v \<Longrightarrow> \<forall>kc \<in> set (AList.update t v pt). 0 \<le> snd kc"
  by (auto dest!: in_set_update)


lemma nonneg_add:
  assumes "countersNonNegative m" shows "countersNonNegative (addOutgoingTicket m p t)"
proof -
  define pt where "pt = (case map_of m p of None \<Rightarrow> [] | Some o1 \<Rightarrow> o1)"
  have pt: "\<forall>kc \<in> set pt. 0 \<le> snd kc"
    using nonneg_lookup_default[OF assms] by (simp add: pt_def)
  have "0 \<le> currentTickets pt t + 1"
    using nonneg_current[OF pt, of t] by simp
  from nonneg_update[OF assms nonneg_entry_update[OF pt this]]
  show ?thesis by (simp add: add_alt Let_def pt_def)
qed








lemma ticketCount_consume:
  assumes "countersNonNegative m"
  shows "ticketCount (snd (consumeOutgoingTicket m p t)) q k =
           (if q = p \<and> k = t \<and> 0 < ticketCount m p t then ticketCount m p t - 1
            else ticketCount m q k)"
proof (cases "map_of m p")
  case None
  then show ?thesis by (simp add: consumeOutgoingTicket_def ticketCount_def)
next
  case (Some pt)
  have pt: "\<forall>kc \<in> set pt. 0 \<le> snd kc" using nonneg_lookup[OF assms Some] .
  show ?thesis
  proof (cases "0 < currentTickets pt t")
    case False
    then show ?thesis using Some by (simp add: consumeOutgoingTicket_def ticketCount_def Let_def)
  next
    case True
    define pt' where "pt' = AList.update t (currentTickets pt t - 1) pt"
    show ?thesis
    proof (cases "hasAnyTickets pt'")
      case True
      then have "snd (consumeOutgoingTicket m p t) = AList.update p pt' m"
        using Some \<open>0 < currentTickets pt t\<close>
        by (simp add: consumeOutgoingTicket_def Let_def pt'_def)
      then show ?thesis using Some \<open>0 < currentTickets pt t\<close>
        by (simp add: ticketCount_def update_conv' pt'_def currentTickets_update)
    next
      case False
      then have del: "snd (consumeOutgoingTicket m p t) = AList.delete p m"
        using Some \<open>0 < currentTickets pt t\<close>
        by (simp add: consumeOutgoingTicket_def Let_def pt'_def)
      have z: "currentTickets pt' j \<le> 0" for j using no_tickets_current[OF False] .
      have "currentTickets pt t - 1 = 0"
        using z[of t] \<open>0 < currentTickets pt t\<close> by (simp add: pt'_def currentTickets_update)
      moreover have "currentTickets pt j = 0" if "j \<noteq> t" for j
        using z[of j] nonneg_current[OF pt, of j] that by (simp add: pt'_def currentTickets_update)
      ultimately show ?thesis using Some \<open>0 < currentTickets pt t\<close>
        by (auto simp: del ticketCount_def delete_conv')
    qed
  qed
qed

lemma ticketCount_nonneg: "countersNonNegative m \<Longrightarrow> 0 \<le> ticketCount m p t"
  using nonneg_lookup[of m p] nonneg_current
  by (auto simp: ticketCount_def split: option.splits)

lemma no_counter_count: "\<not> hasCounter m p t \<Longrightarrow> ticketCount m p t = 0"
  by (auto simp: hasCounter_def ticketCount_def currentTickets_def split: option.splits)

text \<open>
  Claim C3. For every recipient and kind, on a credit map whose counters are not negative:
  an add followed by a consume succeeds in consuming (the provider-side function returns
  true, the helpdesk-side function false) and leaves the count of every pair as it was.
  Where no counter is stored for the pair, the provider-side consume returns false and the
  helpdesk-side consume returns true.
\<close>

theorem add_consume_net_zero:
  "(countersNonNegative m \<longrightarrow>
      fst (consumeOutgoingTicket (addOutgoingTicket m p t) p t) \<and>
      (\<forall>q k. ticketCount (snd (consumeOutgoingTicket (addOutgoingTicket m p t) p t)) q k
               = ticketCount m q k) \<and>
      \<not> fst (consumeOutgoingTicketChatwoot (addOutgoingTicketChatwoot m p t) p t) \<and>
      (\<forall>q k. ticketCount (snd (consumeOutgoingTicketChatwoot
                                 (addOutgoingTicketChatwoot m p t) p t)) q k
               = ticketCount m q k)) \<and>
   (\<not> hasCounter m p t \<longrightarrow> \<not> fst (consumeOutgoingTicket m p t)) \<and>
   (\<not> hasCounter m p t \<longrightarrow> fst (consumeOutgoingTicketChatwoot m p t))"
proof -
  have round: "ticketCount (snd (consumeOutgoingTicket (addOutgoingTicket m p t) p t)) q k
                 = ticketCount m q k"
       and got: "fst (consumeOutgoingTicket (addOutgoingTicket m p t) p t)"
    if nn: "countersNonNegative m" for q k
  proof -
    have pos: "0 < ticketCount (addOutgoingTicket m p t) p t"
      using ticketCount_nonneg[OF nn, of p t] by (simp add: ticketCount_add)
    show "fst (consumeOutgoingTicket (addOutgoingTicket m p t) p t)"
      using pos by (simp add: consume_fst)
    show "ticketCount (snd (consumeOutgoingTicket (addOutgoingTicket m p t) p t)) q k
            = ticketCount m q k"
      using pos by (simp add: ticketCount_consume[OF nonneg_add[OF nn]] ticketCount_add)
  qed
  have absent: "\<not> fst (consumeOutgoingTicket m p t)" if "\<not> hasCounter m p t"
    using no_counter_count[OF that] by (simp add: consume_fst)
  show ?thesis
    using round got absent
    by (simp add: add_chatwoot_eq consume_chatwoot_snd consume_chatwoot_fst)
qed

theorem add_consume_net_zero_witness:
  "countersNonNegative [(''5511999998888'', [(''text'', 2)])] \<and>
   \<not> hasCounter [(''5511999998888'', [(''text'', 2)])] ''5511999998888'' ''image'' \<and>
   fst (consumeOutgoingTicket
         (addOutgoingTicket [(''5511999998888'', [(''text'', 2)])] ''5511999998888'' ''image'')
         ''5511999998888'' ''image'') \<and>
   ticketCount (snd (consumeOutgoingTicket
         (addOutgoingTicket [(''5511999998888'', [(''text'', 2)])] ''5511999998888'' ''image'')
         ''5511999998888'' ''image'')) ''5511999998888'' ''text'' = 2 \<and>
   \<not> fst (consumeOutgoingTicket [(''5511999998888'', [(''text'', 2)])] ''5511999998888'' ''image'') \<and>
   fst (consumeOutgoingTicketChatwoot [(''5511999998888'', [(''text'', 2)])] ''5511999998888'' ''image'')"
proof -
  have nn: "countersNonNegative [(''5511999998888'', [(''text'', 2)])]"
    by (simp add: countersNonNegative_def)
  have nc: "\<not> hasCounter [(''5511999998888'', [(''text'', 2)])] ''5511999998888'' ''image''"
    by (simp add: hasCounter_def)
  have tc: "ticketCount [(''5511999998888'', [(''text'', 2)])] ''5511999998888'' ''text'' = 2"
    by (simp add: ticketCount_def currentTickets_def)
  show ?thesis
    using add_consume_net_zero [of "[(''5511999998888'', [(''text'', 2)])]" "''5511999998888''" "''image''"]
      nn nc tc by simp
qed




section \<open>Properties of the mapping cache\<close>

















lemma distinct_cacheCall: "distinct (map fst c) \<Longrightarrow> distinct (map fst (cacheCall c call))"
  by (cases call)
     (simp_all add: storeMessageIdMapping_def removeMessageIdMapping_def distinct_update
        distinct_delete)

lemma distinct_cacheRun: "distinct (map fst c) \<Longrightarrow> distinct (map fst (cacheRun c calls))"
  unfolding cacheRun_def
  by (induction calls arbitrary: c) (simp_all add: distinct_cacheCall)

lemma distinct_keys_filter:
  "distinct (map fst xs) \<Longrightarrow> length (filter (\<lambda>kv. fst kv = k) xs) \<le> 1"
proof (induction xs)
  case Nil
  then show ?case by simp
next
  case (Cons x xs)
  show ?case
  proof (cases "fst x = k")
    case True
    with Cons.prems have "k \<notin> fst ` set xs" by simp
    then have "filter (\<lambda>kv. fst kv = k) xs = []"
      by (auto simp: filter_empty_conv intro: rev_image_eqI)
    with True show ?thesis by simp
  next
    case False
    with Cons show ?thesis by simp
  qed
qed

text \<open>
  Claim C7, as the code has it. In every cache that store, remove and the lookups can reach
  from the empty cache, the keys are pairwise distinct: a helpdesk message id has at most
  one entry and so at most one provider message id. The code keeps no such bound in the
  other direction: some reachable cache holds one provider message id under two helpdesk
  message ids.
\<close>

theorem cache_keys_unique:
  "distinct (map fst (cacheRun [] calls)) \<and>
   length (filter (\<lambda>kv. fst kv = StringOf h) (cacheRun [] calls)) \<le> 1 \<and>
   (\<exists>calls'. \<not> distinct (map (\<lambda>kv. apiMessageId (snd kv)) (cacheRun [] calls')))"
proof -
  have d: "distinct (map fst (cacheRun [] calls))"
    using distinct_cacheRun[of "[]" calls] by simp
  have "\<not> distinct (map (\<lambda>kv. apiMessageId (snd kv))
          (cacheRun [] [Store (Num 1) ''A'' None None None None,
                        Store (Num 2) ''A'' None None None None]))"
    by (simp add: cacheRun_def storeMessageIdMapping_def decimal.simps)
  then have "\<exists>calls'. \<not> distinct (map (\<lambda>kv. apiMessageId (snd kv)) (cacheRun [] calls'))"
    by blast
  then show ?thesis
    using d distinct_keys_filter[of "cacheRun [] calls" "StringOf h"] by simp
qed

text \<open>
  The claim as stated fails: two stores give two helpdesk ids that hold one provider id.
\<close>

theorem shared_provider_id_counterexample:
  "map (\<lambda>kv. (fst kv, apiMessageId (snd kv)))
     (cacheRun [] [Store (Num 101) ''3EB0C767D0'' None None None None,
                   Store (Num 102) ''3EB0C767D0'' None None None None])
   = [(''101'', ''3EB0C767D0''), (''102'', ''3EB0C767D0'')]"
  by (simp add: cacheRun_def storeMessageIdMapping_def decimal.simps)

section \<open>Properties of the periodic cleanup\<close>

text \<open>
  Claim C4, as the code has it. Every firing of the cleanup timer, which is armed with a
  delay of five hours, empties the provider echo map \<open>messageTickets\<close> and the mapping
  cache, and leaves the helpdesk echo map \<open>messageTicketsChatwoot\<close> as it was.
\<close>

theorem cleanup_firing_effect:
  "messageTickets (cleanupFiring s) = [] \<and> messageIdCache (cleanupFiring s) = [] \<and>
   messageTicketsChatwoot (cleanupFiring s) = messageTicketsChatwoot s \<and>
   cleanupDelayMs = 5 * (60 * 60 * 1000)"
  by (simp add: cleanupFiring_def cleanupDelayMs_def)

text \<open>
  The claim as stated fails: a credit in the helpdesk echo map is still there after a firing.
\<close>

theorem helpdesk_map_survives_counterexample:
  "messageTicketsChatwoot
     (cleanupFiring \<lparr> messageTickets = [(Some ''+5511999998888'', [(''text'', 1)])],
                      messageTicketsChatwoot = [(Some ''+5511999998888'', [(''text'', 1)])],
                      messageIdCache = [] \<rparr>)
   = [(Some ''+5511999998888'', [(''text'', 1)])]"
  by (simp add: cleanupFiring_def)

section \<open>Properties of the provider-event processor\<close>
lemma ticketCount_consume_same:
  assumes "0 < ticketCount m p t"
  shows "ticketCount (snd (consumeOutgoingTicket m p t)) p t = ticketCount m p t - 1"
proof -
  obtain pt where pt: "map_of m p = Some pt" "0 < currentTickets pt t"
    using assms by (auto simp: ticketCount_def split: option.splits)
  define pt' where "pt' = AList.update t (currentTickets pt t - 1) pt"
  show ?thesis
  proof (cases "hasAnyTickets pt'")
    case True
    then show ?thesis using pt
      by (simp add: consumeOutgoingTicket_def Let_def pt'_def ticketCount_def update_conv'
          currentTickets_update)
  next
    case False
    have "currentTickets pt' t \<le> 0" using no_tickets_current[OF False] .
    then have "currentTickets pt t - 1 = 0"
      using pt(2) by (simp add: pt'_def currentTickets_update)
    then show ?thesis using pt False
      by (simp add: consumeOutgoingTicket_def Let_def pt'_def ticketCount_def delete_conv')
  qed
qed

lemma consume_none_unchanged:
  "\<not> 0 < ticketCount m p t \<Longrightarrow> snd (consumeOutgoingTicket m p t) = m"
  by (auto simp: consumeOutgoingTicket_def ticketCount_def Let_def split: option.splits)

text \<open>
  Claim C1, as the code has it. For every provider event with \<open>fromMe\<close> and \<open>fromApi\<close>
  set, the processor calls the helpdesk-side consume for (recipient, kind). If the helpdesk
  echo map held a credit, that credit is consumed and the event is skipped: nothing is
  posted and the provider echo map is untouched. If it held none, the helpdesk echo map is
  unchanged, the provider echo map is pre-credited and the message is posted as outgoing;
  when the post throws, the pre-credit is consumed again and the error is passed on.
\<close>

theorem from_api_echo_inverted:
  assumes "fromMe d" and "fromApi d"
  shows "(0 < ticketCount (messageTicketsChatwoot s) (phone d) (messageTypeOf d) \<longrightarrow>
            snd (snd (processWebhookPrincipal thr d s)) = [] \<and>
            fst (processWebhookPrincipal thr d s) = Processed \<and>
            messageTickets (fst (snd (processWebhookPrincipal thr d s))) = messageTickets s \<and>
            ticketCount (messageTicketsChatwoot (fst (snd (processWebhookPrincipal thr d s))))
                (phone d) (messageTypeOf d)
              = ticketCount (messageTicketsChatwoot s) (phone d) (messageTypeOf d) - 1) \<and>
         (\<not> 0 < ticketCount (messageTicketsChatwoot s) (phone d) (messageTypeOf d) \<longrightarrow>
            snd (snd (processWebhookPrincipal thr d s)) = [ProcessOutgoingMessage (phone d)] \<and>
            messageTicketsChatwoot (fst (snd (processWebhookPrincipal thr d s)))
              = messageTicketsChatwoot s \<and>
            (\<not> thr \<longrightarrow>
               fst (processWebhookPrincipal thr d s) = Processed \<and>
               messageTickets (fst (snd (processWebhookPrincipal thr d s)))
                 = addOutgoingTicket (messageTickets s) (phone d) (messageTypeOf d)) \<and>
            (thr \<longrightarrow>
               fst (processWebhookPrincipal thr d s) = Thrown \<and>
               messageTickets (fst (snd (processWebhookPrincipal thr d s)))
                 = snd (consumeOutgoingTicket
                          (addOutgoingTicket (messageTickets s) (phone d) (messageTypeOf d))
                          (phone d) (messageTypeOf d))))"
proof -
  let ?c = "ticketCount (messageTicketsChatwoot s) (phone d) (messageTypeOf d)"
  have fst_c: "fst (consumeOutgoingTicketChatwoot (messageTicketsChatwoot s) (phone d)
                      (messageTypeOf d)) = (\<not> 0 < ?c)"
    by (simp add: consume_chatwoot_fst consume_fst)
  show ?thesis
  proof (cases "0 < ?c")
    case True
    then show ?thesis using assms fst_c ticketCount_consume_same[OF True]
      by (simp add: processWebhookPrincipal_def Let_def consume_chatwoot_snd)
  next
    case False
    then show ?thesis using assms fst_c consume_none_unchanged[OF False]
      by (simp add: processWebhookPrincipal_def Let_def consume_chatwoot_snd)
  qed
qed

theorem from_api_echo_inverted_witness:
  "fromMe apiEchoEvent \<and> fromApi apiEchoEvent \<and>
   0 < ticketCount [(Some ''+5511999998888'', [(''text'', 1)])]
         (phone apiEchoEvent) (messageTypeOf apiEchoEvent) \<and>
   snd (snd (processWebhookPrincipal False apiEchoEvent
        \<lparr> messageTickets = [],
          messageTicketsChatwoot = [(Some ''+5511999998888'', [(''text'', 1)])] \<rparr>)) = [] \<and>
   \<not> 0 < ticketCount [] (phone apiEchoEvent) (messageTypeOf apiEchoEvent) \<and>
   snd (snd (processWebhookPrincipal False apiEchoEvent
        \<lparr> messageTickets = [], messageTicketsChatwoot = [] \<rparr>))
     = [ProcessOutgoingMessage (Some ''+5511999998888'')] \<and>
   fst (processWebhookPrincipal True apiEchoEvent
        \<lparr> messageTickets = [], messageTicketsChatwoot = [] \<rparr>) = Thrown"
proof -
  have a: "fromMe apiEchoEvent" and b: "fromApi apiEchoEvent"
    by (simp_all add: apiEchoEvent_def)
  have c: "0 < ticketCount [(Some ''+5511999998888'', [(''text'', 1)])]
         (phone apiEchoEvent) (messageTypeOf apiEchoEvent)"
    by (simp add: apiEchoEvent_def messageTypeOf_def ticketCount_def currentTickets_def)
  have e: "\<not> 0 < ticketCount [] (phone apiEchoEvent) (messageTypeOf apiEchoEvent)"
    by (simp add: ticketCount_def)
  have p: "phone apiEchoEvent = Some ''+5511999998888''"
    by (simp add: apiEchoEvent_def)
  show ?thesis
    using from_api_echo_inverted [OF a b,
            of "\<lparr> messageTickets = [],
                  messageTicketsChatwoot = [(Some ''+5511999998888'', [(''text'', 1)])] \<rparr>" False]
          from_api_echo_inverted [OF a b,
            of "\<lparr> messageTickets = [], messageTicketsChatwoot = [] \<rparr>" False]
          from_api_echo_inverted [OF a b,
            of "\<lparr> messageTickets = [], messageTicketsChatwoot = [] \<rparr>" True]
          a b c e p
    by simp
qed

text \<open>
  The claim as stated has the two cases the other way round. With one helpdesk credit for
  the pair the event is skipped and the provider map stays empty; with no credit at all
  the message is posted and the provider map is pre-credited.
\<close>

theorem from_api_echo_counterexample:
  "processWebhookPrincipal False apiEchoEvent
     \<lparr> messageTickets = [],
       messageTicketsChatwoot = [(Some ''+5511999998888'', [(''text'', 1)])] \<rparr>
   = (Processed, \<lparr> messageTickets = [], messageTicketsChatwoot = [] \<rparr>, []) \<and>
   processWebhookPrincipal False apiEchoEvent
     \<lparr> messageTickets = [], messageTicketsChatwoot = [] \<rparr>
   = (Processed,
      \<lparr> messageTickets = [(Some ''+5511999998888'', [(''text'', 1)])],
        messageTicketsChatwoot = [] \<rparr>,
      [ProcessOutgoingMessage (Some ''+5511999998888'')])"
  by (simp add: processWebhookPrincipal_def apiEchoEvent_def messageTypeOf_def
      consumeOutgoingTicketChatwoot_def addOutgoingTicket_def currentTickets_def
      hasAnyTickets_def Let_def)

section \<open>Properties of the phone utilities\<close>



lemma plus_digits_not_group:
  assumes "list_all isDigit ds" shows "\<not> isGroupIdentifier (''+'' @ ds)"
proof
  assume "isGroupIdentifier (''+'' @ ds)"
  then have "set ''@g.us'' \<subseteq> set (''+'' @ ds) \<or> set ''-group'' \<subseteq> set (''+'' @ ds)"
    unfolding isGroupIdentifier_def using set_mono_suffix by blast
  then have "CHR ''u'' \<in> set (''+'' @ ds)" by auto
  then have "isDigit (CHR ''u'')" using assms by (auto simp: list_all_iff)
  then show False by (simp add: isDigit_def)
qed

lemma e164_not_group:
  assumes "matchesE164 p" shows "\<not> isGroupIdentifier p"
proof -
  from assms obtain c1 rest where p: "p = CHR ''+'' # c1 # rest"
    and c1: "c1 \<in> set ''123456789''" and r: "list_all isDigit rest"
    by (auto simp: matchesE164_def split: list.splits)
  have "isDigit c1" using c1 by (auto simp: isDigit_def)
  then have "list_all isDigit (c1 # rest)" using r by simp
  from plus_digits_not_group[OF this] show ?thesis by (simp add: p)
qed

section \<open>Properties of group identifiers\<close>

text \<open>
  Claim C8, as the code has it. The skip of the E.164 normalization depends on the group
  flag of the payload, not on the shape of the identifier. For every inbound event that
  its payload flags as a group and that is not dropped, the extractor takes the contact
  identifier from the payload without normalizing it: Z-API the phone, else the group
  name; UAZAPI \<open>chat.wa_chatid\<close>, else \<open>message.chatid\<close>; Wuzapi the \<open>@lid\<close> chat,
  else the group name. A Z-API or UAZAPI event that is not flagged as a group is passed
  through \<open>normalizeToE164\<close> whatever its identifier ends in, and the fallback for a
  payload of unknown origin normalizes every identifier; a Wuzapi event that is not
  flagged as a group keeps a chat that ends in \<open>@g.us\<close> or \<open>-group\<close> as it is.
  \<open>createContact\<close> attaches \<open>phone_number\<close> exactly when its phone argument matches
  \<open>^\+[1-9]\d{1,14}$\<close>, which no identifier ending in \<open>@g.us\<close> or \<open>-group\<close> does: a
  contact whose identifier is such an identifier (lid and jid not being of that shape)
  never carries \<open>phone_number\<close>.
\<close>

theorem group_flag_gates_normalization:
  "(body_isGroup zb \<and> \<not> desc \<longrightarrow>
      (\<exists>d. extractZapiData zb desc country = Extracted d \<and>
           phone d = orElse (body_phone zb)
                       (orElse (body_chatName zb) (Some ''Grupo sem nome'')))) \<and>
   (\<not> body_isGroup zb' \<longrightarrow>
      (\<exists>d. extractZapiData zb' desc' country = Extracted d \<and>
           phone d = normalizeToE164 (body_phone zb') country)) \<and>
   (uaz_message ub = Some m \<and> msg_isGroup m \<and> \<not> desc \<longrightarrow>
      (\<exists>d. extractUazapiData ub desc country = Some (Extracted d) \<and>
           phone d = orElse (chat_wa_chatid ub) (orElse (msg_chatid m) None))) \<and>
   (uaz_message ub' = Some m' \<and> \<not> msg_isGroup m' \<longrightarrow>
      (\<exists>d. extractUazapiData ub' desc' country = Some (Extracted d) \<and>
           phone d = normalizeToE164 (uazapiRawPhone m') country)) \<and>
   (info_IsGroup wb \<and> \<not> desc \<longrightarrow>
      (\<exists>d. extractWuzapiData wb desc country = Extracted d \<and>
           (if suffix ''@lid'' (case info_Chat wb of None \<Rightarrow> [] | Some c \<Rightarrow> c)
            then phone d = None \<and> lid d = info_Chat wb
            else phone d = wuzapiGroupName wb \<and> lid d = None \<and> jid d = None))) \<and>
   (info_Chat wb' = Some chat \<and> isGroupIdentifier chat \<and> \<not> info_IsGroup wb' \<longrightarrow>
      (\<exists>d. extractWuzapiData wb' desc' country = Extracted d \<and>
           phone d = Some chat \<and> lid d = None \<and> jid d = None)) \<and>
   phone (extractMessageDataDefault kb country)
     = normalizeToE164
         (orElse (unk_phone kb) (orElse (unk_from kb)
            (orElse (unk_number kb) (unk_remoteJid kb))))
         country \<and>
   (createContact ph nm l j = Inr c \<longrightarrow>
      contact_phone_number c
        = (case ph of None \<Rightarrow> None | Some q \<Rightarrow> if matchesE164 q then Some q else None)) \<and>
   (isGroupIdentifier q \<longrightarrow> \<not> matchesE164 q) \<and>
   (createContact ph' nm' l' j' = Inr c' \<and> isGroupIdentifier (contact_identifier c') \<and>
    \<not> (\<exists>x. l' = Some x \<and> isGroupIdentifier x) \<and>
    \<not> (\<exists>x. j' = Some x \<and> isGroupIdentifier x) \<longrightarrow>
      ph' = Some (contact_identifier c') \<and> contact_phone_number c' = None)"
proof -
  have z1: "\<exists>d. extractZapiData zb desc country = Extracted d \<and>
           phone d = orElse (body_phone zb)
                       (orElse (body_chatName zb) (Some ''Grupo sem nome''))"
    if "body_isGroup zb" "\<not> desc"
    using that by (simp add: extractZapiData_def Let_def)
  have z2: "\<exists>d. extractZapiData zb' desc' country = Extracted d \<and>
           phone d = normalizeToE164 (body_phone zb') country"
    if "\<not> body_isGroup zb'"
    using that by (simp add: extractZapiData_def Let_def)
  have u1: "\<exists>d. extractUazapiData ub desc country = Some (Extracted d) \<and>
           phone d = orElse (chat_wa_chatid ub) (orElse (msg_chatid m) None)"
    if "uaz_message ub = Some m" "msg_isGroup m" "\<not> desc"
  proof (cases "truthy (orElse (chat_wa_chatid ub) (orElse (msg_chatid m) None))")
    case True
    then show ?thesis using that by (simp add: extractUazapiData_def Let_def)
  next
    case False
    then have "orElse (chat_wa_chatid ub) (orElse (msg_chatid m) None) = None"
      by (auto simp: orElse_def split: if_splits)
    then show ?thesis using that False by (simp add: extractUazapiData_def Let_def)
  qed
  have u2: "\<exists>d. extractUazapiData ub' desc' country = Some (Extracted d) \<and>
           phone d = normalizeToE164 (uazapiRawPhone m') country"
    if "uaz_message ub' = Some m'" "\<not> msg_isGroup m'"
    using that by (simp add: extractUazapiData_def Let_def)
  have w1: "\<exists>d. extractWuzapiData wb desc country = Extracted d \<and>
           (if suffix ''@lid'' (case info_Chat wb of None \<Rightarrow> [] | Some c \<Rightarrow> c)
            then phone d = None \<and> lid d = info_Chat wb
            else phone d = wuzapiGroupName wb \<and> lid d = None \<and> jid d = None)"
    if "info_IsGroup wb" "\<not> desc"
  proof (cases "info_Chat wb")
    case None
    then show ?thesis using that
      by (simp add: extractWuzapiData_def Let_def orElse_def truthy_def)
  next
    case (Some c)
    show ?thesis
    proof (cases "suffix ''@lid'' c")
      case True
      then have "c \<noteq> []" by auto
      then show ?thesis using that Some True
        by (simp add: extractWuzapiData_def Let_def orElse_def truthy_def)
    next
      case False
      then show ?thesis using that Some
        by (cases "c = []") (simp_all add: extractWuzapiData_def Let_def orElse_def truthy_def)
    qed
  qed
  have w2: "\<exists>d. extractWuzapiData wb' desc' country = Extracted d \<and>
           phone d = Some chat \<and> lid d = None \<and> jid d = None"
    if ch: "info_Chat wb' = Some chat" and g: "isGroupIdentifier chat"
      and ng: "\<not> info_IsGroup wb'"
  proof -
    have ne: "chat \<noteq> []" using g by (auto simp: isGroupIdentifier_def)
    have nl: "\<not> suffix ''@lid'' chat"
    proof
      assume l: "suffix ''@lid'' chat"
      from g show False unfolding isGroupIdentifier_def
      proof
        assume "suffix ''@g.us'' chat"
        from suffix_same_cases[OF this l] show False by (auto simp: suffix_to_prefix)
      next
        assume "suffix ''-group'' chat"
        from suffix_same_cases[OF this l] show False by (auto simp: suffix_to_prefix)
      qed
    qed
    have nj: "\<not> suffix ''@s.whatsapp.net'' chat"
    proof
      assume l: "suffix ''@s.whatsapp.net'' chat"
      from g show False unfolding isGroupIdentifier_def
      proof
        assume "suffix ''@g.us'' chat"
        from suffix_same_cases[OF this l] show False by (auto simp: suffix_to_prefix)
      next
        assume "suffix ''-group'' chat"
        from suffix_same_cases[OF this l] show False by (auto simp: suffix_to_prefix)
      qed
    qed
    show ?thesis using ch ne nl nj ng
      by (simp add: extractWuzapiData_def Let_def orElse_def truthy_def)
  qed
  have k1: "phone (extractMessageDataDefault kb country)
     = normalizeToE164
         (orElse (unk_phone kb) (orElse (unk_from kb)
            (orElse (unk_number kb) (unk_remoteJid kb))))
         country"
    by (simp add: extractMessageDataDefault_def)
  have part3: "contact_phone_number c
        = (case ph of None \<Rightarrow> None | Some q \<Rightarrow> if matchesE164 q then Some q else None)"
    if "createContact ph nm l j = Inr c"
    using that
    by (auto simp: createContact_def Let_def matchesE164_def split: option.splits if_splits)
  have part4: "\<not> matchesE164 q" if "isGroupIdentifier q"
    using e164_not_group that by blast
  have part6: "ph' = Some (contact_identifier c') \<and> contact_phone_number c' = None"
    if cr: "createContact ph' nm' l' j' = Inr c'"
      and g: "isGroupIdentifier (contact_identifier c')"
      and nl: "\<not> (\<exists>x. l' = Some x \<and> isGroupIdentifier x)"
      and nj: "\<not> (\<exists>x. j' = Some x \<and> isGroupIdentifier x)"
  proof -
    have idt: "orElse l' (orElse j' (orElse ph' None)) = Some (contact_identifier c')"
      using cr by (auto simp: createContact_def Let_def split: option.splits)
    have tl: "\<not> truthy l'" using idt g nl by (auto simp: orElse_def split: if_splits)
    have tj: "\<not> truthy j'" using idt g nj tl by (auto simp: orElse_def split: if_splits)
    have ph: "ph' = Some (contact_identifier c')"
      using idt tl tj by (auto simp: orElse_def split: if_splits)
    have "\<not> matchesE164 (contact_identifier c')" using e164_not_group g by blast
    then have "contact_phone_number c' = None"
      using cr ph by (auto simp: createContact_def Let_def split: option.splits if_splits)
    then show ?thesis using ph by simp
  qed
  show ?thesis using z1 z2 u1 u2 w1 w2 k1 part3 part4 part6 by blast
qed

theorem group_flag_gates_normalization_witness:
  "body_isGroup zapiGroupBody \<and>
   extractZapiData zapiGroupBody False ''BR'' = Extracted zapiGroupExtracted \<and>
   phone zapiGroupExtracted = Some ''120363407124580783-group'' \<and>
   \<not> body_isGroup zapiUnflaggedBody \<and>
   extractedPhone (extractZapiData zapiUnflaggedBody True ''BR'') = Some ''+5511999998888'' \<and>
   uaz_message (uazapiBodyOf uazapiGroupMessage) = Some uazapiGroupMessage \<and>
   msg_isGroup uazapiGroupMessage \<and>
   map_option extractedPhone (extractUazapiData (uazapiBodyOf uazapiGroupMessage) False ''BR'')
     = Some (Some ''120363378985956346@g.us'') \<and>
   \<not> msg_isGroup (uazapiGroupMessage\<lparr> msg_isGroup := False \<rparr>) \<and>
   map_option extractedPhone
     (extractUazapiData (uazapiBodyOf (uazapiGroupMessage\<lparr> msg_isGroup := False \<rparr>)) True ''BR'')
     = Some (Some ''+120363378985956346'') \<and>
   info_IsGroup wuzapiGroupBody \<and>
   extractedPhone (extractWuzapiData wuzapiGroupBody False ''BR'') = Some ''Familia'' \<and>
   info_Chat (wuzapiGroupBody\<lparr> info_IsGroup := False \<rparr>) = Some ''120363378985956346@g.us'' \<and>
   isGroupIdentifier ''120363378985956346@g.us'' \<and>
   \<not> info_IsGroup (wuzapiGroupBody\<lparr> info_IsGroup := False \<rparr>) \<and>
   extractedPhone (extractWuzapiData (wuzapiGroupBody\<lparr> info_IsGroup := False \<rparr>) True ''BR'')
     = Some ''120363378985956346@g.us'' \<and>
   createContact (Some ''+5511999998888'') (Some ''Maria'') None None
     = Inr \<lparr> contact_name = ''Maria'', contact_identifier = ''+5511999998888'',
             contact_phone_number = Some ''+5511999998888'' \<rparr> \<and>
   matchesE164 ''+5511999998888'' \<and>
   isGroupIdentifier ''120363407124580783-group'' \<and>
   \<not> matchesE164 ''120363407124580783-group'' \<and>
   contactForEvent zapiGroupExtracted
     = Inr \<lparr> contact_name = ''Familia'', contact_identifier = ''120363407124580783-group'',
             contact_phone_number = None \<rparr>"
proof -
  have g: "body_isGroup zapiGroupBody" by (simp add: zapiGroupBody_def)
  have ex: "extractZapiData zapiGroupBody False ''BR'' = Extracted zapiGroupExtracted"
    by (simp add: extractZapiData_def zapiGroupBody_def zapiGroupExtracted_def orElse_def
        truthy_def Let_def)
  have ph: "phone zapiGroupExtracted = Some ''120363407124580783-group''"
    by (simp add: zapiGroupExtracted_def)
  have ng: "\<not> body_isGroup zapiUnflaggedBody" by (simp add: zapiUnflaggedBody_def)
  have exu: "extractedPhone (extractZapiData zapiUnflaggedBody True ''BR'')
               = Some ''+5511999998888''"
    by (simp add: extractedPhone_def extractZapiData_def zapiUnflaggedBody_def Let_def
        normalizeToE164_def stripNonDigits_def isDigit_def COUNTRY_CODES_def)
  have um: "uaz_message (uazapiBodyOf uazapiGroupMessage) = Some uazapiGroupMessage"
    by (simp add: uazapiBodyOf_def)
  have ug: "msg_isGroup uazapiGroupMessage" by (simp add: uazapiGroupMessage_def)
  have ue: "map_option extractedPhone
              (extractUazapiData (uazapiBodyOf uazapiGroupMessage) False ''BR'')
     = Some (Some ''120363378985956346@g.us'')"
    by (simp add: extractedPhone_def extractUazapiData_def uazapiBodyOf_def
        uazapiGroupMessage_def orElse_def truthy_def Let_def)
  have un: "\<not> msg_isGroup (uazapiGroupMessage\<lparr> msg_isGroup := False \<rparr>)" by simp
  have uu: "map_option extractedPhone
     (extractUazapiData (uazapiBodyOf (uazapiGroupMessage\<lparr> msg_isGroup := False \<rparr>)) True ''BR'')
     = Some (Some ''+120363378985956346'')"
    by (simp add: extractedPhone_def extractUazapiData_def uazapiBodyOf_def
        uazapiGroupMessage_def uazapiRawPhone_def stripJid_def orElse_def truthy_def Let_def
        normalizeToE164_def stripNonDigits_def isDigit_def COUNTRY_CODES_def)
  have wg: "info_IsGroup wuzapiGroupBody" by (simp add: wuzapiGroupBody_def)
  have we: "extractedPhone (extractWuzapiData wuzapiGroupBody False ''BR'') = Some ''Familia''"
    by (simp add: extractedPhone_def extractWuzapiData_def wuzapiGroupBody_def
        wuzapiGroupName_def orElse_def truthy_def Let_def suffix_to_prefix)
  have wc: "info_Chat (wuzapiGroupBody\<lparr> info_IsGroup := False \<rparr>)
              = Some ''120363378985956346@g.us''"
    by (simp add: wuzapiGroupBody_def)
  have wi: "isGroupIdentifier ''120363378985956346@g.us''"
    by (simp add: isGroupIdentifier_def suffix_to_prefix)
  have wn: "\<not> info_IsGroup (wuzapiGroupBody\<lparr> info_IsGroup := False \<rparr>)" by simp
  have wu: "extractedPhone
              (extractWuzapiData (wuzapiGroupBody\<lparr> info_IsGroup := False \<rparr>) True ''BR'')
     = Some ''120363378985956346@g.us''"
    by (simp add: extractedPhone_def extractWuzapiData_def wuzapiGroupBody_def
        orElse_def truthy_def Let_def suffix_to_prefix)
  have cc: "createContact (Some ''+5511999998888'') (Some ''Maria'') None None
     = Inr \<lparr> contact_name = ''Maria'', contact_identifier = ''+5511999998888'',
             contact_phone_number = Some ''+5511999998888'' \<rparr>"
    by (simp add: createContact_def orElse_def truthy_def matchesE164_def isDigit_def Let_def)
  have m: "matchesE164 ''+5511999998888''"
    by (simp add: matchesE164_def isDigit_def)
  have gi: "isGroupIdentifier ''120363407124580783-group''"
    by (simp add: isGroupIdentifier_def suffix_to_prefix)
  have cf: "contactForEvent zapiGroupExtracted
     = Inr \<lparr> contact_name = ''Familia'', contact_identifier = ''120363407124580783-group'',
             contact_phone_number = None \<rparr>"
    by (simp add: contactForEvent_def createContact_def zapiGroupExtracted_def orElse_def
        truthy_def matchesE164_def isDigit_def Let_def)
  have cg: "createContact (Some ''120363407124580783-group'') (Some ''Familia'') None None
     = Inr \<lparr> contact_name = ''Familia'', contact_identifier = ''120363407124580783-group'',
             contact_phone_number = None \<rparr>"
    by (simp add: createContact_def orElse_def truthy_def matchesE164_def isDigit_def Let_def)
  show ?thesis
    using group_flag_gates_normalization
            [where zb = zapiGroupBody and desc = False and country = "''BR''"
               and zb' = zapiUnflaggedBody and desc' = True
               and ub = "uazapiBodyOf uazapiGroupMessage" and m = uazapiGroupMessage
               and ub' = "uazapiBodyOf (uazapiGroupMessage\<lparr> msg_isGroup := False \<rparr>)"
               and m' = "uazapiGroupMessage\<lparr> msg_isGroup := False \<rparr>"
               and wb = wuzapiGroupBody
               and wb' = "wuzapiGroupBody\<lparr> info_IsGroup := False \<rparr>"
               and chat = "''120363378985956346@g.us''"
               and ph = "Some ''+5511999998888''" and nm = "Some ''Maria''"
               and l = None and j = None
               and c = "\<lparr> contact_name = ''Maria'', contact_identifier = ''+5511999998888'',
                          contact_phone_number = Some ''+5511999998888'' \<rparr>"
               and q = "''120363407124580783-group''"
               and ph' = "Some ''120363407124580783-group''" and nm' = "Some ''Familia''"
               and l' = None and j' = None
               and c' = "\<lparr> contact_name = ''Familia'',
                           contact_identifier = ''120363407124580783-group'',
                           contact_phone_number = None \<rparr>"]
          g ex ph ng exu um ug ue un uu wg we wc wi wn wu cc m gi cf cg
    by simp
qed

text \<open>
  The claim as stated fails for an identifier of group shape on an event that is not
  flagged as a group: the Z-API phone \<open>5511999998888-group\<close> is normalized to
  \<open>+5511999998888\<close>, and the contact created for the event carries that as its
  \<open>phone_number\<close>.
\<close>

theorem unflagged_group_wire_id_counterexample:
  "isGroupIdentifier ''5511999998888-group'' \<and>
   body_phone zapiUnflaggedBody = Some ''5511999998888-group'' \<and>
   extractZapiData zapiUnflaggedBody False ''BR'' = Extracted zapiUnflaggedExtracted \<and>
   phone zapiUnflaggedExtracted = Some ''+5511999998888'' \<and>
   contactForEvent zapiUnflaggedExtracted
     = Inr \<lparr> contact_name = ''Ana'', contact_identifier = ''+5511999998888'',
             contact_phone_number = Some ''+5511999998888'' \<rparr>"
  by (simp add: isGroupIdentifier_def suffix_to_prefix zapiUnflaggedBody_def
      zapiUnflaggedExtracted_def extractZapiData_def contactForEvent_def createContact_def
      orElse_def truthy_def matchesE164_def Let_def normalizeToE164_def stripNonDigits_def
      isDigit_def COUNTRY_CODES_def)

section \<open>Properties of message deletion at the provider\<close>

text \<open>
  Claim C9. For the Z-API dialect \<open>deleteMessage\<close> sends one request,
  \<open>DELETE /messages\<close> with the query parameters \<open>messageId\<close>, \<open>phone\<close> and \<open>owner\<close>,
  where \<open>phone\<close> is the recipient as given when it ends in \<open>@g.us\<close> or \<open>-group\<close> and its
  digits otherwise; with a missing recipient (or one without any digit) it fails with an
  error before any request is sent. The UAZAPI and Wuzapi dialects send
  \<open>POST /message/delete {id}\<close> and \<open>POST /chat/delete {MessageId}\<close> whatever the options
  are, and fail only when the provider call does.
\<close>

theorem delete_by_dialect:
  "(\<not> truthy (recipient opts) \<longrightarrow>
      isl (fst (deleteMessage ''zapi'' client msgId opts)) \<and>
      snd (deleteMessage ''zapi'' client msgId opts) = []) \<and>
   (recipient opts = Some r \<and> isGroupIdentifier r \<longrightarrow>
      snd (deleteMessage ''zapi'' client msgId opts)
        = [zapiDeleteRequest msgId r (owner opts \<noteq> Some False)]) \<and>
   (recipient opts = Some r \<and> \<not> isGroupIdentifier r \<and> stripNonDigits r \<noteq> [] \<longrightarrow>
      snd (deleteMessage ''zapi'' client msgId opts)
        = [zapiDeleteRequest msgId (stripNonDigits r) (owner opts \<noteq> Some False)]) \<and>
   (recipient opts = Some r \<and> \<not> isGroupIdentifier r \<and> stripNonDigits r = [] \<longrightarrow>
      isl (fst (deleteMessage ''zapi'' client msgId opts)) \<and>
      snd (deleteMessage ''zapi'' client msgId opts) = []) \<and>
   snd (deleteMessage ''uazapi'' client msgId opts)
     = [\<lparr> http_method = ''POST'', http_path = ''/message/delete'', http_params = [],
          http_body = [(''id'', StrVal msgId)] \<rparr>] \<and>
   isl (fst (deleteMessage ''uazapi'' client msgId opts))
     = isl (client \<lparr> http_method = ''POST'', http_path = ''/message/delete'', http_params = [],
                     http_body = [(''id'', StrVal msgId)] \<rparr>) \<and>
   snd (deleteMessage ''wuzapi'' client msgId opts)
     = [\<lparr> http_method = ''POST'', http_path = ''/chat/delete'', http_params = [],
          http_body = [(''MessageId'', StrVal msgId)] \<rparr>] \<and>
   isl (fst (deleteMessage ''wuzapi'' client msgId opts))
     = isl (client \<lparr> http_method = ''POST'', http_path = ''/chat/delete'', http_params = [],
                     http_body = [(''MessageId'', StrVal msgId)] \<rparr>)"
proof -
  have grp_nonempty: "isGroupIdentifier x \<Longrightarrow> x \<noteq> []" for x
    by (auto simp: isGroupIdentifier_def)
  have z1: "\<not> truthy (recipient opts) \<Longrightarrow>
      isl (fst (deleteMessage ''zapi'' client msgId opts)) \<and>
      snd (deleteMessage ''zapi'' client msgId opts) = []"
    by (auto simp: deleteMessage_def deleteViaZAPI_def truthy_def split: option.splits)
  have z2: "recipient opts = Some r \<Longrightarrow> isGroupIdentifier r \<Longrightarrow>
      snd (deleteMessage ''zapi'' client msgId opts)
        = [zapiDeleteRequest msgId r (owner opts \<noteq> Some False)]"
    using grp_nonempty[of r]
    by (auto simp: deleteMessage_def deleteViaZAPI_def isGroupIdentifier_def
        zapiDeleteRequest_def Let_def split: sum.splits)
  have z3: "recipient opts = Some r \<Longrightarrow> \<not> isGroupIdentifier r \<Longrightarrow> stripNonDigits r \<noteq> [] \<Longrightarrow>
      snd (deleteMessage ''zapi'' client msgId opts)
        = [zapiDeleteRequest msgId (stripNonDigits r) (owner opts \<noteq> Some False)]"
    by (auto simp: deleteMessage_def deleteViaZAPI_def isGroupIdentifier_def
        zapiDeleteRequest_def Let_def stripNonDigits_def split: sum.splits)
  have z4: "recipient opts = Some r \<Longrightarrow> \<not> isGroupIdentifier r \<Longrightarrow> stripNonDigits r = [] \<Longrightarrow>
      isl (fst (deleteMessage ''zapi'' client msgId opts)) \<and>
      snd (deleteMessage ''zapi'' client msgId opts) = []"
    by (auto simp: deleteMessage_def deleteViaZAPI_def isGroupIdentifier_def Let_def)
  have u: "snd (deleteMessage ''uazapi'' client msgId opts)
     = [\<lparr> http_method = ''POST'', http_path = ''/message/delete'', http_params = [],
          http_body = [(''id'', StrVal msgId)] \<rparr>] \<and>
   isl (fst (deleteMessage ''uazapi'' client msgId opts))
     = isl (client \<lparr> http_method = ''POST'', http_path = ''/message/delete'', http_params = [],
                     http_body = [(''id'', StrVal msgId)] \<rparr>)"
    by (simp add: deleteMessage_def deleteViaUAZAPI_def Let_def split: sum.splits)
  have w: "snd (deleteMessage ''wuzapi'' client msgId opts)
     = [\<lparr> http_method = ''POST'', http_path = ''/chat/delete'', http_params = [],
          http_body = [(''MessageId'', StrVal msgId)] \<rparr>] \<and>
   isl (fst (deleteMessage ''wuzapi'' client msgId opts))
     = isl (client \<lparr> http_method = ''POST'', http_path = ''/chat/delete'', http_params = [],
                     http_body = [(''MessageId'', StrVal msgId)] \<rparr>)"
    by (simp add: deleteMessage_def deleteViaWuzapi_def Let_def split: sum.splits)
  show ?thesis using z1 z2 z3 z4 u w by blast
qed

theorem delete_by_dialect_witness:
  "\<not> truthy (recipient \<lparr> recipient = None, owner = Some True \<rparr>) \<and>
   deleteMessage ''zapi'' (\<lambda>req. Inr ''ok'') ''3EB0C767D0'' \<lparr> recipient = None, owner = Some True \<rparr>
     = (Inl (''Falha ao deletar mensagem Z-API: '' @
             ''Recipient (phone ou id do grupo) e obrigatorio para deletar mensagem via Z-API''), []) \<and>
   isGroupIdentifier ''120363407124580783-group'' \<and>
   snd (deleteMessage ''zapi'' (\<lambda>req. Inr ''ok'') ''3EB0C767D0''
          \<lparr> recipient = Some ''120363407124580783-group'', owner = Some True \<rparr>)
     = [zapiDeleteRequest ''3EB0C767D0'' ''120363407124580783-group'' True] \<and>
   \<not> isGroupIdentifier ''+55 (11) 99999-8888'' \<and>
   stripNonDigits ''+55 (11) 99999-8888'' = ''5511999998888'' \<and>
   snd (deleteMessage ''zapi'' (\<lambda>req. Inr ''ok'') ''3EB0C767D0''
          \<lparr> recipient = Some ''+55 (11) 99999-8888'', owner = Some True \<rparr>)
     = [zapiDeleteRequest ''3EB0C767D0'' ''5511999998888'' True] \<and>
   \<not> isGroupIdentifier ''abc@lid'' \<and> stripNonDigits ''abc@lid'' = [] \<and>
   snd (deleteMessage ''zapi'' (\<lambda>req. Inr ''ok'') ''3EB0C767D0''
          \<lparr> recipient = Some ''abc@lid'', owner = Some True \<rparr>) = [] \<and>
   fst (deleteMessage ''uazapi'' (\<lambda>req. Inr ''ok'') ''3EB0C767D0''
          \<lparr> recipient = None, owner = Some True \<rparr>) = Inr (''uazapi'', ''ok'') \<and>
   fst (deleteMessage ''wuzapi'' (\<lambda>req. Inr ''ok'') ''3EB0C767D0''
          \<lparr> recipient = None, owner = Some True \<rparr>) = Inr (''wuzapi'', ''ok'')"
proof -
  have h1: "\<not> truthy (recipient \<lparr> recipient = None, owner = Some True \<rparr>)"
    by (simp add: truthy_def)
  have h2: "isGroupIdentifier ''120363407124580783-group''"
    by (simp add: isGroupIdentifier_def suffix_to_prefix)
  have h3: "\<not> isGroupIdentifier ''+55 (11) 99999-8888''"
    by (simp add: isGroupIdentifier_def suffix_to_prefix)
  have h4: "stripNonDigits ''+55 (11) 99999-8888'' = ''5511999998888''"
    by (simp add: stripNonDigits_def isDigit_def)
  have h5: "\<not> isGroupIdentifier ''abc@lid''"
    by (simp add: isGroupIdentifier_def suffix_to_prefix)
  have h6: "stripNonDigits ''abc@lid'' = []"
    by (simp add: stripNonDigits_def isDigit_def)
  have e1: "deleteMessage ''zapi'' (\<lambda>req. Inr ''ok'') ''3EB0C767D0'' \<lparr> recipient = None, owner = Some True \<rparr>
     = (Inl (''Falha ao deletar mensagem Z-API: '' @
             ''Recipient (phone ou id do grupo) e obrigatorio para deletar mensagem via Z-API''), [])"
    by (simp add: deleteMessage_def deleteViaZAPI_def)
  have e2: "fst (deleteMessage ''uazapi'' (\<lambda>req. Inr ''ok'') ''3EB0C767D0''
          \<lparr> recipient = None, owner = Some True \<rparr>) = Inr (''uazapi'', ''ok'')"
    by (simp add: deleteMessage_def deleteViaUAZAPI_def)
  have e3: "fst (deleteMessage ''wuzapi'' (\<lambda>req. Inr ''ok'') ''3EB0C767D0''
          \<lparr> recipient = None, owner = Some True \<rparr>) = Inr (''wuzapi'', ''ok'')"
    by (simp add: deleteMessage_def deleteViaWuzapi_def)
  show ?thesis
    using delete_by_dialect [of "\<lparr> recipient = None, owner = Some True \<rparr>"
            "\<lambda>req. Inr ''ok''" "''3EB0C767D0''" "''x''"]
          delete_by_dialect [of "\<lparr> recipient = Some ''120363407124580783-group'', owner = Some True \<rparr>"
            "\<lambda>req. Inr ''ok''" "''3EB0C767D0''" "''120363407124580783-group''"]
          delete_by_dialect [of "\<lparr> recipient = Some ''+55 (11) 99999-8888'', owner = Some True \<rparr>"
            "\<lambda>req. Inr ''ok''" "''3EB0C767D0''" "''+55 (11) 99999-8888''"]
          delete_by_dialect [of "\<lparr> recipient = Some ''abc@lid'', owner = Some True \<rparr>"
            "\<lambda>req. Inr ''ok''" "''3EB0C767D0''" "''abc@lid''"]
          h1 h2 h3 h4 h5 h6 e1 e2 e3
    by simp
qed

section \<open>Properties of the message kind\<close>

text \<open>
  Claim C10. The message kind of a helpdesk callback is decided by the file type of the
  first attachment alone: \<open>audio\<close>, \<open>image\<close> and \<open>video\<close> give themselves, \<open>file\<close>
  gives \<open>document\<close>, and every other case is \<open>text\<close>, also no attachments and an
  unknown first file type. The content, the attachments after the first and the other
  fields of the first attachment have no influence.
\<close>

theorem message_kind_by_first_attachment:
  "getMessageType content None = ''text'' \<and>
   getMessageType content (Some attachments) = kindByFirstFileType attachments \<and>
   callbackMessageType content None = ''text'' \<and>
   callbackMessageType content (Some attachments) = kindByFirstFileType attachments \<and>
   callbackMessageType content (Some (a # rest))
     = callbackMessageType content' (Some (a\<lparr> data_url := u, extension := e \<rparr> # rest'))"
  by (auto simp: getMessageType_def callbackMessageType_def kindByFirstFileType_def
      split: list.splits option.splits)

end
